theory Spec2Isabelle
  imports Main
begin

section \<open>Python strings\<close>

text \<open>
  A Python \<open>str\<close> is a sequence of Unicode code points, and \<open>len\<close> counts code
  points. A string is therefore a list of code points (natural numbers). ASCII
  literals of the source are written \<open>asc ''...''\<close>; the few non-ASCII characters of the
  source's literals are written as their code points.
\<close>

type_synonym pystr = "nat list"

definition asc :: "string \<Rightarrow> pystr" where
  "asc s = map of_char s"

text \<open>
  \<open>str.isspace\<close> for one code point. \<open>str.strip()\<close> without argument and the
  regular-expression class \<open>\s\<close> on \<open>str\<close> patterns use this same set.
\<close>

definition is_space :: "nat \<Rightarrow> bool" where
  "is_space c \<longleftrightarrow>
     (9 \<le> c \<and> c \<le> 13) \<or> (28 \<le> c \<and> c \<le> 32) \<or> c = 133 \<or> c = 160 \<or> c = 5760 \<or>
     (8192 \<le> c \<and> c \<le> 8202) \<or> c = 8232 \<or> c = 8233 \<or> c = 8239 \<or> c = 8287 \<or> c = 12288"

definition lstrip :: "pystr \<Rightarrow> pystr" where
  "lstrip s = dropWhile is_space s"

definition rstrip :: "pystr \<Rightarrow> pystr" where
  "rstrip s = rev (dropWhile is_space (rev s))"

definition strip :: "pystr \<Rightarrow> pystr" where
  "strip s = rstrip (lstrip s)"

text \<open>\<open>s.startswith(p)\<close>, \<open>s.endswith(p)\<close> and \<open>sub in s\<close>.\<close>

definition startswith :: "pystr \<Rightarrow> pystr \<Rightarrow> bool" where
  "startswith s p \<longleftrightarrow> take (length p) s = p"

definition endswith :: "pystr \<Rightarrow> pystr \<Rightarrow> bool" where
  "endswith s p \<longleftrightarrow> length p \<le> length s \<and> drop (length s - length p) s = p"

fun contains :: "pystr \<Rightarrow> pystr \<Rightarrow> bool" where
  "contains sub [] = (sub = [])"
| "contains sub (x # xs) = (startswith (x # xs) sub \<or> contains sub xs)"

text \<open>\<open>s.split(c)\<close> for a one-character separator: never an empty list.\<close>

fun split_on :: "nat \<Rightarrow> pystr \<Rightarrow> pystr list" where
  "split_on c [] = [[]]"
| "split_on c (x # xs) =
     (if x = c then [] # split_on c xs
      else (case split_on c xs of
              piece # pieces \<Rightarrow> (x # piece) # pieces
            | [] \<Rightarrow> [[x]]))"

text \<open>
  \<open>s.replace(old, new)\<close>: every non-overlapping occurrence, left to right. With an
  empty \<open>old\<close> Python inserts \<open>new\<close> around every character.
\<close>

fun replace :: "pystr \<Rightarrow> pystr \<Rightarrow> pystr \<Rightarrow> pystr" where
  "replace old new [] = (if old = [] then new else [])"
| "replace old new (x # xs) =
     (if old = [] then new @ x # replace old new xs
      else if startswith (x # xs) old
      then new @ replace old new (drop (length old - 1) xs)
      else x # replace old new xs)"

text \<open>\<open>text[:n]\<close> and \<open>text[-n:]\<close> for \<open>n \<ge> 0\<close>. Python reads \<open>text[-0:]\<close> as \<open>text[0:]\<close>.\<close>

definition slice_to :: "nat \<Rightarrow> pystr \<Rightarrow> pystr" where
  "slice_to n text = take n text"

definition slice_last :: "nat \<Rightarrow> pystr \<Rightarrow> pystr" where
  "slice_last n text = (if n = 0 then text else drop (length text - n) text)"

text \<open>\<open>sep.join(parts)\<close>.\<close>

fun join :: "pystr \<Rightarrow> pystr list \<Rightarrow> pystr" where
  "join sep [] = []"
| "join sep [p] = p"
| "join sep (p # q # ps) = p @ sep @ join sep (q # ps)"

text \<open>\<open>str(n)\<close> for a non-negative integer.\<close>

function str_nat :: "nat \<Rightarrow> pystr" where
  "str_nat n = (if n < 10 then [48 + n] else str_nat (n div 10) @ [48 + n mod 10])"
  by pat_completeness auto
termination
  by (relation "measure (\<lambda>n. n)") auto

declare str_nat.simps [simp del]

section \<open>JSON values and Python dictionaries\<close>

text \<open>
  What \<open>json.loads\<close> and \<open>resp.json()\<close> return: \<open>None\<close>, a bool, a number, a
  string, a list or a dict. A dict keeps its insertion order, so it is an association
  list; a lookup reads the first binding of a key. Numbers are integers here: the
  source never computes with a number of a reply.
\<close>

datatype json =
    JNull
  | JBool bool
  | JNum int
  | JStr pystr
  | JArr "json list"
  | JObj "(pystr \<times> json) list"

type_synonym pydict = "(pystr \<times> json) list"

text \<open>\<open>d.get(k)\<close> (\<open>None\<close> when the key is absent) and \<open>k in d\<close>.\<close>

definition dict_get :: "pydict \<Rightarrow> pystr \<Rightarrow> json option" where
  "dict_get d k = map_of d k"

definition has_key :: "pydict \<Rightarrow> pystr \<Rightarrow> bool" where
  "has_key d k \<longleftrightarrow> dict_get d k \<noteq> None"

text \<open>\<open>d[k] = v\<close>: overwrite in place, or append a new key.\<close>

fun dict_set :: "pydict \<Rightarrow> pystr \<Rightarrow> json \<Rightarrow> pydict" where
  "dict_set [] k v = [(k, v)]"
| "dict_set ((k', v') # d) k v = (if k' = k then (k, v) # d else (k', v') # dict_set d k v)"

text \<open>\<open>d.setdefault(k, v)\<close>: only a missing key is set.\<close>

definition setdefault :: "pydict \<Rightarrow> pystr \<Rightarrow> json \<Rightarrow> pydict" where
  "setdefault d k v = (if has_key d k then d else dict_set d k v)"

text \<open>Python truthiness of a JSON value, as \<open>if v\<close>, \<open>not v\<close> and \<open>v or w\<close> read it.\<close>

fun truthy :: "json \<Rightarrow> bool" where
  "truthy JNull = False"
| "truthy (JBool b) = b"
| "truthy (JNum n) = (n \<noteq> 0)"
| "truthy (JStr s) = (s \<noteq> [])"
| "truthy (JArr xs) = (xs \<noteq> [])"
| "truthy (JObj d) = (d \<noteq> [])"

section \<open>Exceptions, effects and the outside world\<close>

text \<open>
  The exception classes the source tells apart: \<open>FileNotFoundError\<close>,
  \<open>RuntimeError\<close> (with its subclasses, such as \<open>RecursionError\<close>),
  \<open>requests.RequestException\<close> (with its subclasses), \<open>json.JSONDecodeError\<close> as
  \<open>json.loads\<close> raises it, and every other subclass of \<open>Exception\<close> (such as
  \<open>ValueError\<close>, \<open>TypeError\<close> or \<open>AttributeError\<close>). The string is \<open>str(exc)\<close>.
  A computation that may raise returns \<open>Inl\<close> of the exception or \<open>Inr\<close> of its value.
\<close>

datatype py_exn =
    FileNotFoundError pystr
  | RuntimeError pystr
  | RequestException pystr
  | JSONDecodeError pystr
  | OtherException pystr

fun str_exn :: "py_exn \<Rightarrow> pystr" where
  "str_exn (FileNotFoundError m) = m"
| "str_exn (RuntimeError m) = m"
| "str_exn (RequestException m) = m"
| "str_exn (JSONDecodeError m) = m"
| "str_exn (OtherException m) = m"

text \<open>\<open>str(last_error)\<close> of an \<open>Optional[Exception]\<close>.\<close>

definition str_last_error :: "py_exn option \<Rightarrow> pystr" where
  "str_last_error last_error = (case last_error of None \<Rightarrow> asc ''None'' | Some e \<Rightarrow> str_exn e)"

text \<open>What a run does to the outside world, in order.\<close>

datatype log_level = DEBUG | INFO | WARNING | ERROR

datatype event =
    Log log_level
  | Sleep nat
  | HttpGet pystr
  | CatalogQuery pystr
  | GenerateContent pystr
  | CreatePage json
  | Unlink pystr

text \<open>
  A \<open>requests.Response\<close>: the status line, the final URL, what \<open>resp.json()\<close> does,
  \<open>resp.text\<close> and the Content-Type header.
\<close>

record http_response =
  status_code :: nat
  reason :: pystr
  resp_url :: pystr
  json_body :: "py_exn + json"
  text_body :: pystr
  content_type :: "pystr option"

text \<open>
  \<open>resp.raise_for_status()\<close> of the requests library: an \<open>HTTPError\<close> (a
  \<open>RequestException\<close>) for a 4xx or 5xx status, whose text names the status, the reason
  and the URL.
\<close>

definition http_error_msg :: "http_response \<Rightarrow> pystr" where
  "http_error_msg r =
     str_nat (status_code r)
     @ (if status_code r < 500 then asc '' Client Error: '' else asc '' Server Error: '')
     @ reason r @ asc '' for url: '' @ resp_url r"

definition raise_for_status :: "http_response \<Rightarrow> py_exn + unit" where
  "raise_for_status r =
     (if 400 \<le> status_code r \<and> status_code r < 600
      then Inl (RequestException (http_error_msg r)) else Inr ())"

subsection \<open>Reading JSON values the way the source does\<close>

text \<open>
  \<open>x.get(k, default)\<close>: only a dict has \<open>get\<close>; on anything else Python raises
  \<open>AttributeError\<close>.
\<close>

definition py_get :: "json \<Rightarrow> pystr \<Rightarrow> json \<Rightarrow> py_exn + json" where
  "py_get x k dflt =
     (case x of
        JObj d \<Rightarrow> Inr (case dict_get d k of Some v \<Rightarrow> v | None \<Rightarrow> dflt)
      | _ \<Rightarrow> Inl (OtherException (asc ''AttributeError'')))"

text \<open>\<open>x[k]\<close> for a string key: \<open>KeyError\<close> on a dict without it, \<open>TypeError\<close> elsewhere.\<close>

definition py_item :: "json \<Rightarrow> pystr \<Rightarrow> py_exn + json" where
  "py_item x k =
     (case x of
        JObj d \<Rightarrow> (case dict_get d k of Some v \<Rightarrow> Inr v
                   | None \<Rightarrow> Inl (OtherException (asc ''KeyError'')))
      | _ \<Rightarrow> Inl (OtherException (asc ''TypeError'')))"

text \<open>
  \<open>x[0]\<close>: the first element of a list, the first character of a string; a dict read
  from JSON has string keys only, so \<open>0\<close> is a \<open>KeyError\<close>.
\<close>

definition py_first :: "json \<Rightarrow> py_exn + json" where
  "py_first x =
     (case x of
        JArr (v # _) \<Rightarrow> Inr v
      | JArr [] \<Rightarrow> Inl (OtherException (asc ''IndexError''))
      | JStr (c # _) \<Rightarrow> Inr (JStr [c])
      | JStr [] \<Rightarrow> Inl (OtherException (asc ''IndexError''))
      | JObj _ \<Rightarrow> Inl (OtherException (asc ''KeyError''))
      | _ \<Rightarrow> Inl (OtherException (asc ''TypeError'')))"

text \<open>
  \<open>for page in x\<close>: the elements of a list, the keys of a dict, the characters of a
  string; anything else is not iterable.
\<close>

definition py_iter :: "json \<Rightarrow> py_exn + json list" where
  "py_iter x =
     (case x of
        JArr vs \<Rightarrow> Inr vs
      | JObj d \<Rightarrow> Inr (map (\<lambda>(k, v). JStr k) d)
      | JStr s \<Rightarrow> Inr (map (\<lambda>c. JStr [c]) s)
      | _ \<Rightarrow> Inl (OtherException (asc ''TypeError'')))"

section \<open>Files and documents\<close>

text \<open>
  What PyMuPDF shows of a PDF: whether it is encrypted, whether the empty password
  opens it, the text of each page in order (\<open>len(doc)\<close> is the number of pages) and the
  document metadata (\<open>doc.metadata or {}\<close>, a key with value \<open>None\<close> reads as \<open>None\<close>).
\<close>

record pdf_doc =
  is_encrypted :: bool
  authenticate_empty :: bool
  page_texts :: "pystr list"
  doc_metadata :: "(pystr \<times> pystr option) list"

text \<open>
  A regular file is either something \<open>fitz.open\<close> raises on (with the text of the
  exception) or a PDF. The file system maps a path to the file there, if any.
\<close>

datatype disk_file = Unopenable pystr | Pdf pdf_doc

type_synonym filesystem = "pystr \<Rightarrow> disk_file option"

definition isfile :: "filesystem \<Rightarrow> pystr \<Rightarrow> bool" where
  "isfile fs path \<longleftrightarrow> fs path \<noteq> None"

text \<open>The dataclass \<open>ExtractedPaper\<close> (its title, authors and abstract are optional).\<close>

record ExtractedPaper =
  paper_title :: "pystr option"
  paper_authors :: "pystr option"
  paper_abstract :: "pystr option"
  body_text :: pystr
  num_pages :: nat
  source_path :: pystr
  paper_metadata :: "(pystr \<times> pystr option) list"

text \<open>
  One successful \<open>requests.get\<close> of a PDF: the response, the name that
  \<open>tempfile.NamedTemporaryFile(delete=False, suffix=".pdf")\<close> picks (without its
  suffix), what ends up in that file, and the exception that interrupts the streaming
  of the body, if any.
\<close>

record fetch_result =
  fr_response :: http_response
  fr_tmp_stem :: pystr
  fr_written :: disk_file
  fr_stream_error :: "py_exn option"

text \<open>
  The world a pipeline run talks to, and the parts of the Python runtime and of the
  configuration that the source takes from outside: \<open>os.path.abspath\<close>, the Unicode
  case tables, the search of the abstract pattern, \<open>json.loads\<close> (the value, or the
  exception it raises: \<open>JSONDecodeError\<close> on a text that is not JSON, \<open>ValueError\<close>
  on an integer literal over the digit limit, \<open>RecursionError\<close> on a nesting that is
  too deep), \<open>str\<close> of a value that is not a string,
  \<open>date.today().isoformat()\<close>, \<open>NOTION_DATABASE_ID\<close>; the network (the request of
  a given download attempt), the catalog's query and create operations, and the
  reasoning service (what \<open>generate_content\<close> and \<open>response.text\<close> give at a given
  attempt: an exception or the text).
\<close>

record world =
  w_abspath :: "pystr \<Rightarrow> pystr"
  w_lower :: "pystr \<Rightarrow> pystr"
  w_abstract_search :: "pystr \<Rightarrow> pystr option"
  w_json_loads :: "pystr \<Rightarrow> py_exn + json"
  w_str :: "json \<Rightarrow> pystr"
  w_today :: pystr
  w_database_id :: pystr
  w_fetch :: "nat \<Rightarrow> pystr \<Rightarrow> py_exn + fetch_result"
  w_catalog :: "pystr \<Rightarrow> py_exn + http_response"
  w_generate :: "nat \<Rightarrow> pystr \<Rightarrow> py_exn + pystr"
  w_create :: "json \<Rightarrow> py_exn + http_response"

section \<open>Configuration (config.py)\<close>

definition MAX_TEXT_LENGTH :: nat where
  "MAX_TEXT_LENGTH = 30000"

definition DEFAULT_STATUS :: pystr where
  "DEFAULT_STATUS = asc ''Inbox''"

definition REQUEST_RETRY_COUNT :: nat where
  "REQUEST_RETRY_COUNT = 3"

text \<open>The base back-off \<open>REQUEST_RETRY_DELAY = 2.0\<close>, in seconds.\<close>

definition REQUEST_RETRY_DELAY :: nat where
  "REQUEST_RETRY_DELAY = 2"

section \<open>Metadata Analyzer (llm_analyzer.py)\<close>

subsection \<open>Truncation\<close>

text \<open>The marker \<open>"\n\n[...text truncated...]\n\n"\<close>, whose two ellipses are U+2026.\<close>

definition truncation_marker :: pystr where
  "truncation_marker = [10, 10, 91, 8230] @ asc ''text truncated'' @ [8230, 93, 10, 10]"

text \<open>
  \<open>head = int(MAX_TEXT_LENGTH * 0.8)\<close>: the double product \<open>30000 * 0.8\<close> is exactly
  \<open>24000.0\<close>, so the integer arithmetic below gives the same head.
\<close>

definition truncate_head :: nat where
  "truncate_head = (MAX_TEXT_LENGTH * 8) div 10"

definition truncate_tail :: nat where
  "truncate_tail = MAX_TEXT_LENGTH - truncate_head"

definition truncate :: "pystr \<Rightarrow> pystr" where
  "truncate text =
     (if length text \<le> MAX_TEXT_LENGTH then text
      else slice_to truncate_head text @ truncation_marker @ slice_last truncate_tail text)"

text \<open>The \<open>logger.info\<close> line of \<open>_truncate\<close>, written only when it cuts.\<close>

definition truncate_events :: "pystr \<Rightarrow> event list" where
  "truncate_events text = (if length text \<le> MAX_TEXT_LENGTH then [] else [Log INFO])"

subsection \<open>Normalisation of the parsed reply\<close>

text \<open>\<open>[item.strip() for item in s.split(",") if item.strip()]\<close>.\<close>

definition split_items :: "pystr \<Rightarrow> pystr list" where
  "split_items s = map strip (filter (\<lambda>item. strip item \<noteq> []) (split_on 44 s))"

text \<open>One round of the loop over \<open>("keywords", "main_topics")\<close>.\<close>

definition coerce_list :: "pydict \<Rightarrow> pystr \<Rightarrow> pydict" where
  "coerce_list data key =
     (case dict_get data key of
        Some (JStr s) \<Rightarrow> dict_set data key (JArr (map JStr (split_items s)))
      | _ \<Rightarrow> data)"

text \<open>What the loop does to the value under one of its keys.\<close>

definition coerce_value :: "json option \<Rightarrow> json option" where
  "coerce_value v = (case v of Some (JStr s) \<Rightarrow> Some (JArr (map JStr (split_items s))) | _ \<Rightarrow> v)"

definition set_defaults :: "pydict \<Rightarrow> pydict" where
  "set_defaults data0 =
     (let data1 = setdefault data0 (asc ''title'') JNull;
          data2 = setdefault data1 (asc ''authors'') JNull;
          data3 = setdefault data2 (asc ''year'') JNull;
          data4 = setdefault data3 (asc ''keywords'') (JArr []);
          data5 = setdefault data4 (asc ''main_topics'') (JArr []);
          data6 = setdefault data5 (asc ''key_findings'') (JStr []);
          data7 = setdefault data6 (asc ''methodology'') (JStr []);
          data8 = setdefault data7 (asc ''relevance_score'') (JStr (asc ''Medium''));
          data9 = setdefault data8 (asc ''research_area'') (JStr (asc ''Background''))
      in setdefault data9 (asc ''language'') (JStr (asc ''English'')))"

definition normalise :: "pydict \<Rightarrow> pydict" where
  "normalise data =
     coerce_list (coerce_list (set_defaults data) (asc ''keywords'')) (asc ''main_topics'')"

text \<open>The keys and defaults of \<open>_normalise\<close>, as a table for stating its properties.\<close>

definition expected_defaults :: "(pystr \<times> json) list" where
  "expected_defaults =
     [(asc ''title'', JNull), (asc ''authors'', JNull), (asc ''year'', JNull),
      (asc ''keywords'', JArr []), (asc ''main_topics'', JArr []),
      (asc ''key_findings'', JStr []), (asc ''methodology'', JStr []),
      (asc ''relevance_score'', JStr (asc ''Medium'')),
      (asc ''research_area'', JStr (asc ''Background'')),
      (asc ''language'', JStr (asc ''English''))]"

definition list_keys :: "pystr list" where
  "list_keys = [asc ''keywords'', asc ''main_topics'']"

subsection \<open>The prompt\<close>

text \<open>\<open>_PROMPT_TEMPLATE\<close> up to its placeholder, which ends it; the dash is U+2014.\<close>

definition quoted :: "pystr \<Rightarrow> pystr" where
  "quoted s = [34] @ s @ [34]"

definition prompt_head :: pystr where
  "prompt_head =
     asc ''You are analyzing an academic paper. Extract the following information and return it as valid JSON only '' @ [8212] @ asc '' no markdown fences, no explanations.\<newline>''
     @ asc ''\<newline>''
     @ asc ''{\<newline>''
     @ asc ''  '' @ quoted (asc ''title'') @ asc '': '' @ quoted (asc ''<full title>'') @ asc '',\<newline>''
     @ asc ''  '' @ quoted (asc ''authors'') @ asc '': '' @ quoted (asc ''<comma-separated author names>'') @ asc '',\<newline>''
     @ asc ''  '' @ quoted (asc ''year'') @ asc '': <4-digit integer or null>,\<newline>''
     @ asc ''  '' @ quoted (asc ''keywords'') @ asc '': ['' @ quoted (asc ''kw1'') @ asc '', '' @ quoted (asc ''kw2'') @ asc '', ...],\<newline>''
     @ asc ''  '' @ quoted (asc ''main_topics'') @ asc '': ['' @ quoted (asc ''topic1'') @ asc '', '' @ quoted (asc ''topic2'') @ asc '', ...],\<newline>''
     @ asc ''  '' @ quoted (asc ''key_findings'') @ asc '': '' @ quoted (asc ''<2-3 sentences summarising main findings>'') @ asc '',\<newline>''
     @ asc ''  '' @ quoted (asc ''methodology'') @ asc '': '' @ quoted (asc ''<1-2 sentences describing the method>'') @ asc '',\<newline>''
     @ asc ''  '' @ quoted (asc ''relevance_score'') @ asc '': '' @ quoted (asc ''High | Medium | Low'') @ asc '',\<newline>''
     @ asc ''  '' @ quoted (asc ''research_area'') @ asc '': '' @ quoted (asc ''Primary Research | Related Field | Methodology | Background'') @ asc '',\<newline>''
     @ asc ''  '' @ quoted (asc ''language'') @ asc '': '' @ quoted (asc ''<detected language>'') @ asc ''\<newline>''
     @ asc ''}\<newline>''
     @ asc ''\<newline>''
     @ asc ''Rules:\<newline>''
     @ asc ''- keywords : 5-10 concise terms that capture the core subjects\<newline>''
     @ asc ''- main_topics : 3-5 broader thematic areas\<newline>''
     @ asc ''- relevance_score : High = cutting-edge / directly relevant; Low = tangential\<newline>''
     @ asc ''- research_area : how this paper fits into a research portfolio\<newline>''
     @ asc ''- Use null for any field that cannot be determined\<newline>''
     @ asc ''- year must be an integer, not a string\<newline>''
     @ asc ''\<newline>''
     @ asc ''---\<newline>''
     @ asc ''\<newline>''
     @ asc ''Paper text (may be truncated for long papers):\<newline>''
     @ asc ''\<newline>''"

subsection \<open>Parsing the reply\<close>

text \<open>
  \<open>re.sub(r"^```(?:json)?\s*\n?", "", cleaned)\<close>: an opening fence at the very start,
  with its optional \<open>json\<close> and the whitespace after it.
\<close>

definition strip_opening_fence :: "pystr \<Rightarrow> pystr" where
  "strip_opening_fence s =
     (if startswith s (asc ''```'')
      then (let rest = drop 3 s
            in dropWhile is_space (if startswith rest (asc ''json'') then drop 4 rest else rest))
      else s)"

text \<open>
  \<open>re.sub(r"\n?```\s*$", "", cleaned)\<close>: a fence followed by nothing but whitespace
  up to the end, with the newline before it, is cut off.
\<close>

definition fence_tail :: "pystr \<Rightarrow> bool" where
  "fence_tail t \<longleftrightarrow> startswith t (asc ''```'') \<and> list_all is_space (drop 3 t)"

fun strip_closing_fence :: "pystr \<Rightarrow> pystr" where
  "strip_closing_fence [] = []"
| "strip_closing_fence (x # xs) =
     (if fence_tail (x # xs) \<or> (x = 10 \<and> fence_tail xs) then []
      else x # strip_closing_fence xs)"

text \<open>The text handed to \<open>json.loads\<close>: trimmed, then without its fences.\<close>

definition strip_fences :: "pystr \<Rightarrow> pystr" where
  "strip_fences raw = strip_closing_fence (strip_opening_fence (strip raw))"

definition invalid_json_error :: "pystr \<Rightarrow> py_exn" where
  "invalid_json_error detail =
     RuntimeError (asc ''Gemini returned invalid JSON '' @ [8212]
       @ asc '' try re-running the command.\<newline>  '' @ [8594] @ asc '' '' @ detail)"

text \<open>
  \<open>_parse_response\<close>. Only \<open>json.JSONDecodeError\<close> is caught and turned into the
  \<open>RuntimeError\<close>; anything else that \<open>json.loads\<close> raises passes through.
\<close>

definition parse_response :: "(pystr \<Rightarrow> py_exn + json) \<Rightarrow> pystr \<Rightarrow> py_exn + json" where
  "parse_response loads raw =
     (let cleaned = strip_fences raw
      in case loads cleaned of
           Inl (JSONDecodeError detail) \<Rightarrow> Inl (invalid_json_error detail)
         | Inl e \<Rightarrow> Inl e
         | Inr v \<Rightarrow> Inr v)"

subsection \<open>analyze_paper\<close>

definition empty_response_error :: py_exn where
  "empty_response_error = RuntimeError (asc ''Gemini returned an empty response'')"

definition retries_exhausted_error :: "py_exn option \<Rightarrow> py_exn" where
  "retries_exhausted_error last_error =
     RuntimeError (asc ''Gemini API failed after '' @ str_nat REQUEST_RETRY_COUNT
       @ asc '' attempts: '' @ str_last_error last_error)"

text \<open>
  \<open>data.setdefault\<close> on a value that is not a dict: \<open>AttributeError\<close>, with the
  name of the value's type.
\<close>

fun type_name :: "json \<Rightarrow> pystr" where
  "type_name JNull = asc ''NoneType''"
| "type_name (JBool b) = asc ''bool''"
| "type_name (JNum n) = asc ''int''"
| "type_name (JStr s) = asc ''str''"
| "type_name (JArr xs) = asc ''list''"
| "type_name (JObj d) = asc ''dict''"

definition no_setdefault_error :: "json \<Rightarrow> py_exn" where
  "no_setdefault_error v =
     OtherException ([39] @ type_name v @ [39] @ asc '' object has no attribute '' @ [39]
       @ asc ''setdefault'' @ [39])"

text \<open>
  The body of the \<open>try\<close> of one attempt, given what the service answered (the
  exception of \<open>generate_content\<close> or of \<open>response.text\<close>, or the text): an empty
  text raises \<open>RuntimeError\<close>, \<open>_parse_response\<close> raises what it raises, and
  \<open>_normalise\<close> is applied to whatever \<open>json.loads\<close> returned.
\<close>

definition analyze_try :: "(pystr \<Rightarrow> py_exn + json) \<Rightarrow> py_exn + pystr \<Rightarrow> py_exn + pydict" where
  "analyze_try loads answer =
     (case answer of
        Inl e \<Rightarrow> Inl e
      | Inr text \<Rightarrow>
          (if text = [] then Inl empty_response_error
           else (case parse_response loads text of
                   Inl e \<Rightarrow> Inl e
                 | Inr (JObj data) \<Rightarrow> Inr (normalise data)
                 | Inr v \<Rightarrow> Inl (no_setdefault_error v))))"

text \<open>
  The loop \<open>for attempt in range(1, REQUEST_RETRY_COUNT + 1)\<close> over the list of its
  attempt numbers: \<open>except RuntimeError: raise\<close>, then \<open>except Exception\<close> with the
  back-off \<open>REQUEST_RETRY_DELAY * (2 ** (attempt - 1))\<close>; the empty list is the code
  after the loop.
\<close>

fun analyze_attempts :: "(pystr \<Rightarrow> py_exn + json) \<Rightarrow> (nat \<Rightarrow> pystr \<Rightarrow> py_exn + pystr) \<Rightarrow> pystr
    \<Rightarrow> nat list \<Rightarrow> py_exn option \<Rightarrow> (py_exn + pydict) \<times> event list" where
  "analyze_attempts loads generate prompt [] last_error =
     (Inl (retries_exhausted_error last_error), [])"
| "analyze_attempts loads generate prompt (attempt # rest) last_error =
     (case analyze_try loads (generate attempt prompt) of
        Inr result \<Rightarrow> (Inr result, [Log INFO, GenerateContent prompt, Log INFO])
      | Inl (RuntimeError m) \<Rightarrow> (Inl (RuntimeError m), [Log INFO, GenerateContent prompt])
      | Inl e \<Rightarrow>
          (case analyze_attempts loads generate prompt rest (Some e) of
             (res, events) \<Rightarrow>
               (res,
                [Log INFO, GenerateContent prompt, Log WARNING]
                @ (if attempt < REQUEST_RETRY_COUNT
                   then [Log INFO, Sleep (REQUEST_RETRY_DELAY * 2 ^ (attempt - 1))] else [])
                @ events)))"

text \<open>
  \<open>analyze_paper\<close>: the prompt is built once (\<open>_truncate\<close> logs when it cuts), then
  the loop runs.
\<close>

definition analyze_paper :: "(pystr \<Rightarrow> py_exn + json) \<Rightarrow> (nat \<Rightarrow> pystr \<Rightarrow> py_exn + pystr) \<Rightarrow> pystr
    \<Rightarrow> (py_exn + pydict) \<times> event list" where
  "analyze_paper loads generate paper_text =
     (case analyze_attempts loads generate (prompt_head @ truncate paper_text)
             [1 ..< REQUEST_RETRY_COUNT + 1] None of
        (res, events) \<Rightarrow> (res, truncate_events paper_text @ events))"

text \<open>For stating how often the service was called.\<close>

definition calls_made :: "event list \<Rightarrow> nat" where
  "calls_made events =
     length (filter (\<lambda>ev. case ev of GenerateContent _ \<Rightarrow> True | _ \<Rightarrow> False) events)"







section \<open>Duplicate Guard (notion_client.py)\<close>

text \<open>
  \<open>str.lower()\<close>. On an ASCII string it maps \<open>A\<close>..\<open>Z\<close> to \<open>a\<close>..\<open>z\<close>. On any
  other string it is given by the Unicode case tables of the Python runtime, the
  parameter \<open>ul\<close>.
\<close>

definition lower_ascii :: "nat \<Rightarrow> nat" where
  "lower_ascii c = (if 65 \<le> c \<and> c \<le> 90 then c + 32 else c)"

definition py_lower :: "(pystr \<Rightarrow> pystr) \<Rightarrow> pystr \<Rightarrow> pystr" where
  "py_lower ul s = (if list_all (\<lambda>c. c < 128) s then map lower_ascii s else ul s)"

text \<open>\<open>re.sub(r'\s+', ' ', title)\<close>: every maximal run of whitespace becomes one space.\<close>

function collapse_ws :: "pystr \<Rightarrow> pystr" where
  "collapse_ws [] = []"
| "collapse_ws (x # xs) =
     (if is_space x then 32 # collapse_ws (dropWhile is_space xs) else x # collapse_ws xs)"
  by pat_completeness auto
termination
  by (relation "measure length") (auto simp: length_dropWhile_le less_Suc_eq_le)

definition normalize_title :: "(pystr \<Rightarrow> pystr) \<Rightarrow> pystr \<Rightarrow> pystr" where
  "normalize_title ul title = py_lower ul (strip (collapse_ws title))"

text \<open>
  The title of one page of the reply:
  \<open>page.get("properties", {}).get("Title", {}).get("title", [])\<close>, then the content of
  its first block, or \<open>""\<close> without blocks. \<open>_normalize_title\<close> needs a string;
  \<open>re.sub\<close> raises \<open>TypeError\<close> on anything else.
\<close>

definition title_blocks :: "json \<Rightarrow> py_exn + json" where
  "title_blocks page =
     (case py_get page (asc ''properties'') (JObj []) of
        Inl e \<Rightarrow> Inl e
      | Inr props \<Rightarrow>
          (case py_get props (asc ''Title'') (JObj []) of
             Inl e \<Rightarrow> Inl e
           | Inr t \<Rightarrow> py_get t (asc ''title'') (JArr [])))"

definition first_block_content :: "json \<Rightarrow> py_exn + json" where
  "first_block_content blocks =
     (case py_first blocks of
        Inl e \<Rightarrow> Inl e
      | Inr b \<Rightarrow>
          (case py_item b (asc ''text'') of
             Inl e \<Rightarrow> Inl e
           | Inr t \<Rightarrow> py_item t (asc ''content'')))"

definition page_title :: "json \<Rightarrow> py_exn + pystr" where
  "page_title page =
     (case title_blocks page of
        Inl e \<Rightarrow> Inl e
      | Inr blocks \<Rightarrow>
          (if truthy blocks
           then (case first_block_content blocks of
                   Inl e \<Rightarrow> Inl e
                 | Inr (JStr s) \<Rightarrow> Inr s
                 | Inr _ \<Rightarrow> Inl (OtherException (asc ''TypeError'')))
           else Inr []))"

text \<open>
  The loop over the pages. \<open>Inr (Some v)\<close>: the function returns \<open>v\<close> from inside the
  loop (with the log line of the match); \<open>Inr None\<close>: the loop ends without a match.
\<close>

fun scan_pages :: "(pystr \<Rightarrow> pystr) \<Rightarrow> pystr \<Rightarrow> json list \<Rightarrow> py_exn + json option" where
  "scan_pages ul normalized_title [] = Inr None"
| "scan_pages ul normalized_title (page # pages) =
     (case page_title page of
        Inl e \<Rightarrow> Inl e
      | Inr t \<Rightarrow>
          (if normalize_title ul t = normalized_title
           then (case py_get page (asc ''url'') JNull of
                   Inl e \<Rightarrow> Inl e
                 | Inr u \<Rightarrow> Inr (Some u))
           else scan_pages ul normalized_title pages))"

text \<open>
  The body of the \<open>try\<close>, after the request was sent: the catalog's answer is the
  outcome of \<open>requests.post\<close>.
\<close>

definition read_reply :: "(pystr \<Rightarrow> pystr) \<Rightarrow> pystr \<Rightarrow> py_exn + http_response
    \<Rightarrow> py_exn + json option" where
  "read_reply ul normalized_title answer =
     (case answer of
        Inl e \<Rightarrow> Inl e
      | Inr resp \<Rightarrow>
          (case raise_for_status resp of
             Inl e \<Rightarrow> Inl e
           | Inr _ \<Rightarrow>
               (case json_body resp of
                  Inl e \<Rightarrow> Inl e
                | Inr body \<Rightarrow>
                    (case py_get body (asc ''results'') (JArr []) of
                       Inl e \<Rightarrow> Inl e
                     | Inr results \<Rightarrow>
                         (case py_iter results of
                            Inl e \<Rightarrow> Inl e
                          | Inr pages \<Rightarrow> scan_pages ul normalized_title pages)))))"

text \<open>
  \<open>check_duplicate\<close>. The catalog is a function from the text of the
  title-contains filter, \<open>title[:100]\<close>, to the outcome of the request. The result is
  what the call does (raise or return: Python's \<open>None\<close> is \<open>JNull\<close>) and its events.
  \<open>except Exception\<close> catches every \<open>py_exn\<close>.
\<close>

definition check_duplicate :: "(pystr \<Rightarrow> pystr) \<Rightarrow> (pystr \<Rightarrow> py_exn + http_response) \<Rightarrow> pystr
    \<Rightarrow> (py_exn + json) \<times> event list" where
  "check_duplicate ul catalog title =
     (if title = [] then (Inr JNull, [])
      else
        (let normalized_title = normalize_title ul title;
             query = slice_to 100 title
         in case read_reply ul normalized_title (catalog query) of
              Inr (Some u) \<Rightarrow> (Inr u, [Log INFO, CatalogQuery query, Log INFO])
            | Inr None \<Rightarrow> (Inr JNull, [Log INFO, CatalogQuery query])
            | Inl e \<Rightarrow> (Inr JNull, [Log INFO, CatalogQuery query, Log WARNING])))"



text \<open>A catalog page with the given title blocks and URL, and a successful reply of pages.\<close>

definition catalog_page :: "json list \<Rightarrow> pystr \<Rightarrow> json" where
  "catalog_page blocks url =
     JObj [(asc ''properties'', JObj [(asc ''Title'', JObj [(asc ''title'', JArr blocks)])]),
           (asc ''url'', JStr url)]"



definition ok_reply :: "json \<Rightarrow> http_response" where
  "ok_reply body =
     \<lparr>status_code = 200, reason = asc ''OK'', resp_url = [], json_body = Inr body,
      text_body = [], content_type = Some (asc ''application/json'')\<rparr>"

definition results_reply :: "json list \<Rightarrow> http_response" where
  "results_reply pages = ok_reply (JObj [(asc ''results'', JArr pages)])"

section \<open>Document Extractor (pdf_extractor.py)\<close>

text \<open>Truthiness of an \<open>Optional[str]\<close>: neither \<open>None\<close> nor empty.\<close>

definition nonempty :: "pystr option \<Rightarrow> bool" where
  "nonempty v \<longleftrightarrow> (case v of Some s \<Rightarrow> s \<noteq> [] | None \<Rightarrow> False)"

text \<open>The property \<open>full_text\<close>.\<close>

definition full_text :: "ExtractedPaper \<Rightarrow> pystr" where
  "full_text paper =
     join (asc ''\<newline>\<newline>'')
       ((if nonempty (paper_title paper) then [asc ''Title: '' @ the (paper_title paper)] else [])
        @ (if nonempty (paper_authors paper)
           then [asc ''Authors: '' @ the (paper_authors paper)] else [])
        @ (if nonempty (paper_abstract paper)
           then [asc ''Abstract:\<newline>'' @ the (paper_abstract paper)] else [])
        @ (if body_text paper \<noteq> [] then [body_text paper] else []))"

text \<open>\<open>re.sub(r"\n{3,}", "\n\n", text)\<close>: a run of three or more newlines becomes two.\<close>

function collapse_newlines :: "pystr \<Rightarrow> pystr" where
  "collapse_newlines [] = []"
| "collapse_newlines (x # xs) =
     (if x = 10
      then (if 2 \<le> length (takeWhile (\<lambda>c. c = 10) xs) then [10, 10]
            else 10 # takeWhile (\<lambda>c. c = 10) xs)
           @ collapse_newlines (dropWhile (\<lambda>c. c = 10) xs)
      else x # collapse_newlines xs)"
  by pat_completeness auto
termination
  by (relation "measure length") (auto simp: length_dropWhile_le less_Suc_eq_le)

text \<open>
  \<open>_clean_text\<close>: the five ligatures U+FB01, U+FB02, U+FB00, U+FB03, U+FB04 in the
  order of the source, blank lines collapsed, every line right-trimmed, the whole
  trimmed.
\<close>

definition fix_ligatures :: "pystr \<Rightarrow> pystr" where
  "fix_ligatures text0 =
     (let text1 = replace [64257] (asc ''fi'') text0;
          text2 = replace [64258] (asc ''fl'') text1;
          text3 = replace [64256] (asc ''ff'') text2;
          text4 = replace [64259] (asc ''ffi'') text3
      in replace [64260] (asc ''ffl'') text4)"

definition clean_text :: "pystr \<Rightarrow> pystr" where
  "clean_text text =
     strip (join [10] (map rstrip (split_on 10 (collapse_newlines (fix_ligatures text)))))"

text \<open>
  \<open>_detect_abstract\<close>. The search of the regular expression is the \<open>re\<close> library's;
  \<open>search text\<close> is group 1 of \<open>re.search(pattern, text, re.DOTALL)\<close>, or \<open>None\<close>
  without a match.
\<close>

definition detect_abstract :: "(pystr \<Rightarrow> pystr option) \<Rightarrow> pystr \<Rightarrow> pystr option" where
  "detect_abstract search text =
     (case search text of
        Some g \<Rightarrow> (let candidate = clean_text g
                   in if 50 < length candidate then Some candidate else None)
      | None \<Rightarrow> None)"

text \<open>\<open>_detect_title\<close>.\<close>

definition detect_title :: "pystr \<Rightarrow> pystr option \<Rightarrow> pystr option" where
  "detect_title text pdf_meta_title =
     (if nonempty pdf_meta_title \<and> 3 < length (strip (the pdf_meta_title))
      then Some (strip (the pdf_meta_title))
      else find (\<lambda>stripped. 5 < length stripped) (map strip (split_on 10 text)))"

text \<open>\<open>meta.get(key)\<close> on the document metadata.\<close>

definition meta_get :: "(pystr \<times> pystr option) list \<Rightarrow> pystr \<Rightarrow> pystr option" where
  "meta_get meta key = (case map_of meta key of Some v \<Rightarrow> v | None \<Rightarrow> None)"

text \<open>The joined text of the pages whose text is not blank.\<close>

definition raw_text :: "pdf_doc \<Rightarrow> pystr" where
  "raw_text doc = join (asc ''\<newline>\<newline>'') (filter (\<lambda>t. strip t \<noteq> []) (page_texts doc))"

text \<open>The four errors of \<open>extract_text_from_pdf\<close>, with the texts of the source.\<close>

definition not_found_error :: "pystr \<Rightarrow> py_exn" where
  "not_found_error pdf_path = FileNotFoundError (asc ''PDF not found: '' @ pdf_path)"

definition unreadable_error :: "pystr \<Rightarrow> py_exn" where
  "unreadable_error exc = RuntimeError (asc ''Cannot open PDF: '' @ exc)"

definition password_error :: "pystr \<Rightarrow> py_exn" where
  "password_error pdf_path =
     RuntimeError (asc ''PDF is password-protected: '' @ pdf_path @ asc ''\<newline>  '' @ [8594]
       @ asc '' Unlock it before processing.'')"

definition scanned_error :: "nat \<Rightarrow> nat \<Rightarrow> py_exn" where
  "scanned_error n_chars n_pages =
     RuntimeError (asc ''Only '' @ str_nat n_chars @ asc '' characters extracted from ''
       @ str_nat n_pages @ asc '' pages '' @ [8212]
       @ asc '' this PDF is likely scanned and needs OCR.\<newline>  '' @ [8594]
       @ asc '' Try uploading to Google Docs or an online OCR tool first.'')"

text \<open>
  \<open>extract_text_from_pdf\<close>. \<open>abspath\<close> is \<open>os.path.abspath\<close> in the current
  directory of the process.
\<close>

definition extract_text_from_pdf :: "(pystr \<Rightarrow> pystr) \<Rightarrow> (pystr \<Rightarrow> pystr option) \<Rightarrow> filesystem
    \<Rightarrow> pystr \<Rightarrow> (py_exn + ExtractedPaper) \<times> event list" where
  "extract_text_from_pdf abspath search fs path =
     (let pdf_path = abspath path
      in case fs pdf_path of
           None \<Rightarrow> (Inl (not_found_error pdf_path), [])
         | Some (Unopenable exc) \<Rightarrow> (Inl (unreadable_error exc), [Log INFO])
         | Some (Pdf doc) \<Rightarrow>
             (if is_encrypted doc \<and> \<not> authenticate_empty doc
              then (Inl (password_error pdf_path), [Log INFO])
              else
                (let n_pages = length (page_texts doc);
                     meta = doc_metadata doc;
                     raw = raw_text doc
                 in if length (strip raw) < 100 \<and> 0 < n_pages
                    then (Inl (scanned_error (length (strip raw)) n_pages), [Log INFO])
                    else
                      (let cleaned = clean_text raw
                       in (Inr \<lparr>paper_title = detect_title cleaned (meta_get meta (asc ''title'')),
                                paper_authors = meta_get meta (asc ''author''),
                                paper_abstract = detect_abstract search cleaned,
                                body_text = cleaned,
                                num_pages = n_pages,
                                source_path = pdf_path,
                                paper_metadata = meta\<rparr>,
                           [Log INFO])))))"

text \<open>The number of characters of a text that are not whitespace.\<close>

definition non_whitespace_length :: "pystr \<Rightarrow> nat" where
  "non_whitespace_length text = length (filter (\<lambda>c. \<not> is_space c) text)"

section \<open>Acquisition Resolver (pdf_extractor.py)\<close>

subsection \<open>download_pdf\<close>

text \<open>\<open>url.rstrip("/")\<close>.\<close>

definition rstrip_slash :: "pystr \<Rightarrow> pystr" where
  "rstrip_slash s = rev (dropWhile (\<lambda>c. c = 47) (rev s))"

text \<open>The two rewrites of publisher URLs, with their log lines.\<close>

definition rewrite_arxiv :: "pystr \<Rightarrow> pystr \<times> event list" where
  "rewrite_arxiv url =
     (if contains (asc ''arxiv.org/abs/'') url
      then (let url1 = replace (asc ''/abs/'') (asc ''/pdf/'') url
            in (if \<not> endswith url1 (asc ''.pdf'') then url1 @ asc ''.pdf'' else url1, [Log INFO]))
      else (url, []))"

definition rewrite_sciencedirect :: "pystr \<Rightarrow> pystr \<times> event list" where
  "rewrite_sciencedirect url =
     (if contains (asc ''sciencedirect.com'') url \<and> contains (asc ''/abs/'') url
      then (let url1 = replace (asc ''/abs/'') (asc ''/'') url
            in (if \<not> endswith url1 (asc ''/pdfft'') then rstrip_slash url1 @ asc ''/pdfft''
                else url1,
                [Log INFO, Log WARNING]))
      else (url, []))"

text \<open>
  One round of the \<open>try\<close> in the loop: the request, \<open>raise_for_status\<close>, the temp
  file and the streaming of the body into it. The temp file exists from its creation
  on, also when the streaming fails.
\<close>

definition temp_name :: "fetch_result \<Rightarrow> pystr" where
  "temp_name r = fr_tmp_stem r @ asc ''.pdf''"

definition download_try :: "py_exn + fetch_result \<Rightarrow> filesystem \<Rightarrow> (py_exn + pystr) \<times> filesystem" where
  "download_try answer fs =
     (case answer of
        Inl e \<Rightarrow> (Inl e, fs)
      | Inr r \<Rightarrow>
          (case raise_for_status (fr_response r) of
             Inl e \<Rightarrow> (Inl e, fs)
           | Inr _ \<Rightarrow>
               (let fs1 = fs(temp_name r \<mapsto> fr_written r)
                in case fr_stream_error r of
                     Some e \<Rightarrow> (Inl e, fs1)
                   | None \<Rightarrow> (Inr (temp_name r), fs1))))"

text \<open>The three hints of the error message; the arrow is U+2192.\<close>

definition sciencedirect_hint :: pystr where
  "sciencedirect_hint =
     asc ''\<newline>\<newline>  ScienceDirect blocks automated downloads.''
     @ asc ''\<newline>  '' @ [8594]
     @ asc '' Try using the DOI instead: python paper_processor.py --doi 10.xxxx/xxxxx''
     @ asc ''\<newline>  '' @ [8594]
     @ asc '' Or download the PDF manually and use: python paper_processor.py --pdf file.pdf''"

definition blocked_hint :: pystr where
  "blocked_hint =
     asc ''\<newline>\<newline>  This URL appears to be blocked (403 Forbidden).''
     @ asc ''\<newline>  '' @ [8594] @ asc '' The paper may be paywalled or behind bot protection''
     @ asc ''\<newline>  '' @ [8594] @ asc '' Try using --doi if you have the paper'' @ [39]
     @ asc ''s DOI''
     @ asc ''\<newline>  '' @ [8594] @ asc '' Or download manually and use --pdf''"

definition not_found_hint :: pystr where
  "not_found_hint =
     asc ''\<newline>\<newline>  URL not found (404). Check that the URL is correct.''
     @ asc ''\<newline>  '' @ [8594] @ asc '' Make sure it'' @ [39]
     @ asc ''s a direct PDF link, not an abstract page''"

definition download_error :: "pystr \<Rightarrow> py_exn option \<Rightarrow> py_exn" where
  "download_error url last_error =
     (let error_msg = asc ''Download failed after '' @ str_nat REQUEST_RETRY_COUNT
                      @ asc '' attempts: '' @ str_last_error last_error
      in RuntimeError
           (if contains (asc ''403'') (str_last_error last_error)
               \<or> contains (asc ''Forbidden'') (str_last_error last_error)
            then (if contains (asc ''sciencedirect.com'') url
                  then error_msg @ sciencedirect_hint
                  else error_msg @ blocked_hint)
            else if contains (asc ''404'') (str_last_error last_error)
            then error_msg @ not_found_hint
            else error_msg))"

text \<open>
  The loop \<open>for attempt in range(1, REQUEST_RETRY_COUNT + 1)\<close> over the list of its
  attempt numbers, and the code after the loop when the list is used up. \<open>fetch\<close> is
  the network: the outcome of the request of a given attempt.
\<close>

fun download_attempts :: "(nat \<Rightarrow> pystr \<Rightarrow> py_exn + fetch_result) \<Rightarrow> pystr \<Rightarrow> nat list
    \<Rightarrow> filesystem \<Rightarrow> py_exn option \<Rightarrow> (py_exn + pystr) \<times> filesystem \<times> event list" where
  "download_attempts fetch url [] fs last_error = (Inl (download_error url last_error), fs, [])"
| "download_attempts fetch url (attempt # rest) fs last_error =
     (case download_try (fetch attempt url) fs of
        (Inr name, fs1) \<Rightarrow> (Inr name, fs1, [Log INFO, HttpGet url, Log INFO])
      | (Inl (RequestException m), fs1) \<Rightarrow>
          (case download_attempts fetch url rest fs1 (Some (RequestException m)) of
             (res, fs2, events) \<Rightarrow>
               (res, fs2,
                [Log INFO, HttpGet url, Log WARNING]
                @ (if attempt < REQUEST_RETRY_COUNT then [Sleep REQUEST_RETRY_DELAY] else [])
                @ events))
      | (Inl e, fs1) \<Rightarrow> (Inl e, fs1, [Log INFO, HttpGet url]))"

definition download_pdf :: "(nat \<Rightarrow> pystr \<Rightarrow> py_exn + fetch_result) \<Rightarrow> filesystem \<Rightarrow> pystr
    \<Rightarrow> (py_exn + pystr) \<times> filesystem \<times> event list" where
  "download_pdf fetch fs url0 =
     (let (url1, events1) = rewrite_arxiv url0;
          (url, events2) = rewrite_sciencedirect url1;
          (res, fs1, events3) =
            download_attempts fetch url [1 ..< REQUEST_RETRY_COUNT + 1] fs None
      in (res, fs1, events1 @ events2 @ events3))"

text \<open>The URL that is fetched, after the two rewrites.\<close>

definition rewritten_url :: "pystr \<Rightarrow> pystr" where
  "rewritten_url url0 = fst (rewrite_sciencedirect (fst (rewrite_arxiv url0)))"

text \<open>A server that answers every request with 404 Not Found.\<close>

definition not_found_response :: "pystr \<Rightarrow> http_response" where
  "not_found_response u =
     \<lparr>status_code = 404, reason = asc ''Not Found'', resp_url = u,
      json_body = Inl (RequestException (asc ''Expecting value'')), text_body = [],
      content_type = None\<rparr>"

definition always_404 :: "nat \<Rightarrow> pystr \<Rightarrow> py_exn + fetch_result" where
  "always_404 attempt u =
     Inr \<lparr>fr_response = not_found_response u, fr_tmp_stem = asc ''/tmp/tmpq1w2e3'',
          fr_written = Unopenable [], fr_stream_error = None\<rparr>"

text \<open>For stating how often the network was asked and how long the run slept.\<close>

definition requests_made :: "event list \<Rightarrow> nat" where
  "requests_made events = length (filter (\<lambda>ev. case ev of HttpGet _ \<Rightarrow> True | _ \<Rightarrow> False) events)"

definition sleeps :: "event list \<Rightarrow> nat list" where
  "sleeps events = concat (map (\<lambda>ev. case ev of Sleep d \<Rightarrow> [d] | _ \<Rightarrow> []) events)"

subsection \<open>resolve_doi_to_pdf\<close>





















section \<open>Catalog Writer (notion_client.py)\<close>

text \<open>The property builders. \<open>value or ""\<close> keeps a truthy value.\<close>

definition or_empty :: "json \<Rightarrow> json" where
  "or_empty v = (if truthy v then v else JStr [])"

definition prop_title :: "json \<Rightarrow> json" where
  "prop_title v =
     JObj [(asc ''title'', JArr [JObj [(asc ''text'', JObj [(asc ''content'', or_empty v)])]])]"

definition prop_rich_text :: "json \<Rightarrow> json" where
  "prop_rich_text v =
     JObj [(asc ''rich_text'', JArr [JObj [(asc ''text'', JObj [(asc ''content'', or_empty v)])]])]"

definition prop_number :: "json \<Rightarrow> json" where
  "prop_number v = JObj [(asc ''number'', v)]"

definition prop_select :: "json \<Rightarrow> json" where
  "prop_select v = JObj [(asc ''select'', if truthy v then JObj [(asc ''name'', v)] else JNull)]"

text \<open>\<open>str(v)\<close>: a string is itself, anything else is printed by the runtime.\<close>

definition py_str :: "(json \<Rightarrow> pystr) \<Rightarrow> json \<Rightarrow> pystr" where
  "py_str pstr v = (case v of JStr s \<Rightarrow> s | _ \<Rightarrow> pstr v)"

text \<open>
  \<open>_prop_multi_select\<close>: a string is wrapped into a list, then
  \<open>[{"name": str(v)} for v in (values or [])]\<close>, which raises on a value that cannot
  be iterated.
\<close>

definition prop_multi_select :: "(json \<Rightarrow> pystr) \<Rightarrow> json \<Rightarrow> py_exn + json" where
  "prop_multi_select pstr values0 =
     (let values1 = (case values0 of JStr s \<Rightarrow> JArr [JStr s] | _ \<Rightarrow> values0)
      in case py_iter (if truthy values1 then values1 else JArr []) of
           Inl e \<Rightarrow> Inl e
         | Inr vs \<Rightarrow>
             Inr (JObj [(asc ''multi_select'',
                         JArr (map (\<lambda>v. JObj [(asc ''name'', JStr (py_str pstr v))]) vs))]))"

definition prop_date :: "pystr \<Rightarrow> json" where
  "prop_date iso_date =
     JObj [(asc ''date'', if iso_date \<noteq> [] then JObj [(asc ''start'', JStr iso_date)] else JNull)]"

definition prop_url :: "json \<Rightarrow> json" where
  "prop_url v = JObj [(asc ''url'', v)]"

text \<open>\<open>paper_data.get(key)\<close> and \<open>paper_data.get(key, [])\<close>.\<close>

definition get_or_none :: "pydict \<Rightarrow> pystr \<Rightarrow> json" where
  "get_or_none d key = (case dict_get d key of Some v \<Rightarrow> v | None \<Rightarrow> JNull)"

definition get_or_list :: "pydict \<Rightarrow> pystr \<Rightarrow> json" where
  "get_or_list d key = (case dict_get d key of Some v \<Rightarrow> v | None \<Rightarrow> JArr [])"

text \<open>The two errors of \<open>create_paper_page\<close>.\<close>

definition notion_api_error :: "nat \<Rightarrow> pystr \<Rightarrow> py_exn" where
  "notion_api_error status message =
     RuntimeError (asc ''Notion API '' @ str_nat status @ asc '': '' @ message
       @ asc ''\<newline>  '' @ [8594] @ asc '' Verify integration permissions and database ID.'')"

definition connection_failed_error :: "pystr \<Rightarrow> py_exn" where
  "connection_failed_error exc = RuntimeError (asc ''Notion API connection failed: '' @ exc)"

text \<open>The properties in the order of the source, without the two multi-selects' errors.\<close>

definition page_properties :: "world \<Rightarrow> pydict \<Rightarrow> pystr \<Rightarrow> pystr option \<Rightarrow> json \<Rightarrow> json \<Rightarrow> pydict" where
  "page_properties w paper_data source pdf_url keywords main_topics =
     [(asc ''Title'', prop_title (if truthy (get_or_none paper_data (asc ''title''))
                                  then get_or_none paper_data (asc ''title'')
                                  else JStr (asc ''Untitled Paper''))),
      (asc ''Authors'', prop_rich_text (get_or_none paper_data (asc ''authors''))),
      (asc ''Year'', prop_number (get_or_none paper_data (asc ''year''))),
      (asc ''Keywords'', keywords),
      (asc ''Main Topics'', main_topics),
      (asc ''Key Findings'', prop_rich_text (get_or_none paper_data (asc ''key_findings''))),
      (asc ''Methodology'', prop_rich_text (get_or_none paper_data (asc ''methodology''))),
      (asc ''Relevance Score'', prop_select (get_or_none paper_data (asc ''relevance_score''))),
      (asc ''Research Area'', prop_select (get_or_none paper_data (asc ''research_area''))),
      (asc ''Status'', prop_select (JStr DEFAULT_STATUS)),
      (asc ''Source'', prop_select (JStr source)),
      (asc ''Date Added'', prop_date (w_today w))]
     @ (if nonempty pdf_url then [(asc ''PDF Link'', prop_url (JStr (the pdf_url)))] else [])"

text \<open>What the function does with the answer of the create request.\<close>

definition read_created :: "world \<Rightarrow> py_exn + http_response \<Rightarrow> (py_exn + json) \<times> event list" where
  "read_created w answer =
     (case answer of
        Inl (RequestException m) \<Rightarrow> (Inl (connection_failed_error m), [])
      | Inl e \<Rightarrow> (Inl e, [])
      | Inr resp \<Rightarrow>
          (if status_code resp \<noteq> 200
           then (case json_body resp of
                   Inl (RequestException m) \<Rightarrow> (Inl (connection_failed_error m), [])
                 | Inl e \<Rightarrow> (Inl e, [])
                 | Inr body \<Rightarrow>
                     (case py_get body (asc ''message'') (JStr (text_body resp)) of
                        Inl e \<Rightarrow> (Inl e, [])
                      | Inr message \<Rightarrow>
                          (Inl (notion_api_error (status_code resp) (py_str (w_str w) message)),
                           [])))
           else (case json_body resp of
                   Inl (RequestException m) \<Rightarrow> (Inl (connection_failed_error m), [])
                 | Inl e \<Rightarrow> (Inl e, [])
                 | Inr body \<Rightarrow>
                     (case py_get body (asc ''url'') (JStr []) of
                        Inl e \<Rightarrow> (Inl e, [])
                      | Inr created_url \<Rightarrow> (Inr created_url, [Log INFO])))))"

definition create_paper_page :: "world \<Rightarrow> pydict \<Rightarrow> pystr \<Rightarrow> pystr option
    \<Rightarrow> (py_exn + json) \<times> event list" where
  "create_paper_page w paper_data source pdf_url =
     (case prop_multi_select (w_str w) (get_or_list paper_data (asc ''keywords'')) of
        Inl e \<Rightarrow> (Inl e, [])
      | Inr keywords \<Rightarrow>
          (case prop_multi_select (w_str w) (get_or_list paper_data (asc ''main_topics'')) of
             Inl e \<Rightarrow> (Inl e, [])
           | Inr main_topics \<Rightarrow>
               (let payload =
                      JObj [(asc ''parent'', JObj [(asc ''database_id'', JStr (w_database_id w))]),
                            (asc ''properties'',
                             JObj (page_properties w paper_data source pdf_url keywords
                                     main_topics))]
                in case read_created w (w_create w payload) of
                     (res, events) \<Rightarrow> (res, [Log INFO, CreatePage payload] @ events))))"

section \<open>Pipeline Orchestrator (paper_processor.py)\<close>

text \<open>
  \<open>', '.join(analysis.get('keywords', []))\<close> of the progress report raises
  \<open>TypeError\<close> unless the value can be iterated and yields strings only.
\<close>

definition keywords_joinable :: "json \<Rightarrow> bool" where
  "keywords_joinable v =
     (case v of
        JArr xs \<Rightarrow> list_all (\<lambda>x. case x of JStr _ \<Rightarrow> True | _ \<Rightarrow> False) xs
      | JObj d \<Rightarrow> True
      | JStr s \<Rightarrow> True
      | _ \<Rightarrow> False)"

text \<open>The fall-back to the PDF's own title and authors.\<close>

definition fill_from_pdf :: "pydict \<Rightarrow> ExtractedPaper \<Rightarrow> pydict" where
  "fill_from_pdf analysis0 paper =
     (let analysis1 =
            (if \<not> truthy (get_or_none analysis0 (asc ''title'')) \<and> nonempty (paper_title paper)
             then dict_set analysis0 (asc ''title'') (JStr (the (paper_title paper)))
             else analysis0)
      in if \<not> truthy (get_or_none analysis1 (asc ''authors'')) \<and> nonempty (paper_authors paper)
         then dict_set analysis1 (asc ''authors'') (JStr (the (paper_authors paper)))
         else analysis1)"

text \<open>From the analysis to the end of the \<open>try\<close> block.\<close>

definition analyse_and_create :: "world \<Rightarrow> ExtractedPaper \<Rightarrow> pystr \<Rightarrow> pystr
    \<Rightarrow> (py_exn + bool) \<times> event list" where
  "analyse_and_create w paper pdf_link source =
     (case analyze_paper (w_json_loads w) (w_generate w) (full_text paper) of
        (Inl e, events1) \<Rightarrow> (Inl e, events1)
      | (Inr analysis0, events1) \<Rightarrow>
          (let analysis = fill_from_pdf analysis0 paper
           in if \<not> keywords_joinable (get_or_list analysis (asc ''keywords''))
              then (Inl (OtherException (asc ''TypeError'')), events1)
              else (case create_paper_page w analysis source (Some pdf_link) of
                      (Inl e, events2) \<Rightarrow> (Inl e, events1 @ events2)
                    | (Inr created_url, events2) \<Rightarrow> (Inr True, events1 @ events2))))"

text \<open>From the extraction to the end of the \<open>try\<close> block.\<close>

definition process_pdf :: "world \<Rightarrow> filesystem \<Rightarrow> pystr \<Rightarrow> pystr \<Rightarrow> pystr
    \<Rightarrow> (py_exn + bool) \<times> event list" where
  "process_pdf w fs pdf_path pdf_link source =
     (case extract_text_from_pdf (w_abspath w) (w_abstract_search w) fs pdf_path of
        (Inl e, events1) \<Rightarrow> (Inl e, events1)
      | (Inr paper, events1) \<Rightarrow>
          (if nonempty (paper_title paper)
           then (case check_duplicate (w_lower w) (w_catalog w) (the (paper_title paper)) of
                   (Inl e, events2) \<Rightarrow> (Inl e, events1 @ events2)
                 | (Inr dup_url, events2) \<Rightarrow>
                     (if truthy dup_url then (Inr True, events1 @ events2)
                      else (case analyse_and_create w paper pdf_link source of
                              (res, events3) \<Rightarrow> (res, events1 @ events2 @ events3))))
           else (case analyse_and_create w paper pdf_link source of
                   (res, events3) \<Rightarrow> (res, events1 @ events3))))"

text \<open>
  The \<open>try\<close> block: what it does (raise or return), the variables \<open>pdf_path\<close> and
  \<open>downloaded\<close> as they stand when it is left, the file system and the events.
\<close>

definition try_block :: "world \<Rightarrow> filesystem \<Rightarrow> pystr \<Rightarrow> pystr \<Rightarrow> bool
    \<Rightarrow> (py_exn + bool) \<times> pystr option \<times> bool \<times> filesystem \<times> event list" where
  "try_block w fs input_path source is_url =
     (if is_url
      then (case download_pdf (w_fetch w) fs input_path of
              (Inl e, fs1, events1) \<Rightarrow> (Inl e, None, False, fs1, events1)
            | (Inr pdf_path, fs1, events1) \<Rightarrow>
                (case process_pdf w fs1 pdf_path input_path source of
                   (res, events2) \<Rightarrow> (res, Some pdf_path, True, fs1, events1 @ events2)))
      else (let pdf_path = w_abspath w input_path
            in if \<not> isfile fs pdf_path then (Inr False, Some pdf_path, False, fs, [])
               else (case process_pdf w fs pdf_path pdf_path source of
                       (res, events2) \<Rightarrow> (res, Some pdf_path, False, fs, events2))))"

text \<open>\<open>except (FileNotFoundError, RuntimeError)\<close>: log the error, return \<open>False\<close>.\<close>

definition except_block :: "py_exn + bool \<Rightarrow> (py_exn + bool) \<times> event list" where
  "except_block res =
     (case res of
        Inl (FileNotFoundError m) \<Rightarrow> (Inr False, [Log ERROR])
      | Inl (RuntimeError m) \<Rightarrow> (Inr False, [Log ERROR])
      | _ \<Rightarrow> (res, []))"

text \<open>
  \<open>finally\<close>: \<open>if downloaded and pdf_path and os.path.exists(pdf_path):
  os.unlink(pdf_path)\<close>.
\<close>

definition finally_block :: "pystr option \<Rightarrow> bool \<Rightarrow> filesystem \<Rightarrow> filesystem \<times> event list" where
  "finally_block pdf_path downloaded fs =
     (if downloaded \<and> nonempty pdf_path \<and> isfile fs (the pdf_path)
      then (fs((the pdf_path) := None), [Unlink (the pdf_path)])
      else (fs, []))"

text \<open>
  \<open>process_single_paper\<close>: what the call does (raise or return its verdict), the file
  system it leaves and its events.
\<close>

definition process_single_paper :: "world \<Rightarrow> filesystem \<Rightarrow> pystr \<Rightarrow> pystr \<Rightarrow> bool
    \<Rightarrow> (py_exn + bool) \<times> filesystem \<times> event list" where
  "process_single_paper w fs input_path source is_url =
     (case try_block w fs input_path source is_url of
        (res, pdf_path, downloaded, fs1, events1) \<Rightarrow>
          (case except_block res of
             (res2, events2) \<Rightarrow>
               (case finally_block pdf_path downloaded fs1 of
                  (fs2, events3) \<Rightarrow> (res2, fs2, events1 @ events2 @ events3))))"

text \<open>For stating that the catalog was not asked.\<close>

definition catalog_queries :: "event list \<Rightarrow> nat" where
  "catalog_queries events =
     length (filter (\<lambda>ev. case ev of CatalogQuery _ \<Rightarrow> True | _ \<Rightarrow> False) events)"

text \<open>
  A world for trying the pipeline: every download succeeds at once and writes the given
  file to \<open>/tmp/tmpab12.pdf\<close>, the catalog is empty, the reasoning service answers
  \<open>{}\<close>, which \<open>json.loads\<close> reads as given, and the catalog accepts the new page.
\<close>

definition demo_world :: "disk_file \<Rightarrow> (pystr \<Rightarrow> py_exn + json) \<Rightarrow> world" where
  "demo_world downloaded_file loads =
     \<lparr>w_abspath = (\<lambda>path. path),
      w_lower = (\<lambda>s. s),
      w_abstract_search = (\<lambda>text. None),
      w_json_loads = loads,
      w_str = (\<lambda>v. asc ''?''),
      w_today = asc ''2024-03-01'',
      w_database_id = asc ''0123456789abcdef'',
      w_fetch = (\<lambda>attempt url.
         Inr \<lparr>fr_response = ok_reply JNull, fr_tmp_stem = asc ''/tmp/tmpab12'',
              fr_written = downloaded_file, fr_stream_error = None\<rparr>),
      w_catalog = (\<lambda>query. Inr (results_reply [])),
      w_generate = (\<lambda>attempt prompt. Inr (asc ''{}'')),
      w_create = (\<lambda>payload. Inr (ok_reply (JObj [(asc ''url'', JStr (asc ''https://notion.so/new''))])))\<rparr>"

text \<open>A PDF that the empty password does not open, and a PDF of one page of text.\<close>

definition locked_pdf :: disk_file where
  "locked_pdf = Pdf \<lparr>is_encrypted = True, authenticate_empty = False, page_texts = [],
                     doc_metadata = []\<rparr>"

definition sample_page :: pystr where
  "sample_page =
     asc ''A Survey of Deep Learning\<newline>''
     @ asc ''We review the recent progress of deep learning methods and their ''
     @ asc ''applications to vision and language.''"

definition one_page_pdf :: disk_file where
  "one_page_pdf = Pdf \<lparr>is_encrypted = False, authenticate_empty = False,
                       page_texts = [sample_page], doc_metadata = []\<rparr>"

text \<open>A PDF of one page of forty two-letter lines, none long enough to be a title.\<close>

definition short_lines :: pystr where
  "short_lines =
     asc ''ab\<newline>ab\<newline>ab\<newline>ab\<newline>ab\<newline>ab\<newline>ab\<newline>ab\<newline>ab\<newline>ab\<newline>ab\<newline>ab\<newline>ab\<newline>ab\<newline>ab\<newline>ab\<newline>ab\<newline>ab\<newline>ab\<newline>ab\<newline>ab\<newline>ab\<newline>ab\<newline>ab\<newline>ab\<newline>ab\<newline>ab\<newline>ab\<newline>ab\<newline>ab\<newline>ab\<newline>ab\<newline>ab\<newline>ab\<newline>ab\<newline>ab\<newline>ab\<newline>ab\<newline>ab\<newline>ab''"

definition untitled_pdf :: disk_file where
  "untitled_pdf = Pdf \<lparr>is_encrypted = False, authenticate_empty = False,
                       page_texts = [short_lines], doc_metadata = []\<rparr>"

text \<open>What the extractor makes of the one-page PDF at its temp path.\<close>

definition sample_paper :: ExtractedPaper where
  "sample_paper = \<lparr>paper_title = Some (asc ''A Survey of Deep Learning''), paper_authors = None,
      paper_abstract = None, body_text = sample_page, num_pages = 1,
      source_path = asc ''/tmp/tmpab12.pdf'', paper_metadata = []\<rparr>"

section \<open>Truncation: properties\<close>

lemma truncate_short: "length x \<le> MAX_TEXT_LENGTH \<Longrightarrow> truncate x = x"
  by (simp add: truncate_def)

lemma truncate_long:
  assumes "MAX_TEXT_LENGTH < length x"
  shows "truncate x = take 24000 x @ truncation_marker @ drop (length x - 6000) x"
  using assms
  by (simp add: truncate_def slice_to_def slice_last_def truncate_head_def truncate_tail_def
      MAX_TEXT_LENGTH_def)

lemma length_truncation_marker: "length truncation_marker = 22"
  by (simp add: truncation_marker_def asc_def)

text \<open>
  C2. A text of at most \<open>MAX_TEXT_LENGTH\<close> characters is returned unchanged. A longer
  text becomes its first 80 percent of the budget, then the marker, then its last 20
  percent of the budget, and the result is as long as the budget plus the marker.
\<close>

theorem truncate_spec:
  "(length x \<le> MAX_TEXT_LENGTH \<longrightarrow> truncate x = x) \<and>
   (MAX_TEXT_LENGTH < length x \<longrightarrow>
      truncate x = take (MAX_TEXT_LENGTH * 80 div 100) x @ truncation_marker
                   @ drop (length x - MAX_TEXT_LENGTH * 20 div 100) x \<and>
      length (truncate x) = MAX_TEXT_LENGTH + length truncation_marker)"
proof (intro conjI impI)
  assume "length x \<le> MAX_TEXT_LENGTH"
  then show "truncate x = x" by (rule truncate_short)
next
  assume long: "MAX_TEXT_LENGTH < length x"
  have eq: "truncate x = take 24000 x @ truncation_marker @ drop (length x - 6000) x"
    using long by (rule truncate_long)
  show "truncate x = take (MAX_TEXT_LENGTH * 80 div 100) x @ truncation_marker
                   @ drop (length x - MAX_TEXT_LENGTH * 20 div 100) x"
    using eq by (simp add: MAX_TEXT_LENGTH_def)
  have "30000 < length x" using long by (simp add: MAX_TEXT_LENGTH_def)
  then show "length (truncate x) = MAX_TEXT_LENGTH + length truncation_marker"
    by (simp add: eq MAX_TEXT_LENGTH_def)
qed

theorem truncate_spec_witness:
  "length (asc ''short paper'') \<le> MAX_TEXT_LENGTH \<and>
   truncate (asc ''short paper'') = asc ''short paper'' \<and>
   MAX_TEXT_LENGTH < length (replicate 24000 (97::nat) @ replicate 7 98 @ replicate 6000 99) \<and>
   truncate (replicate 24000 97 @ replicate 7 98 @ replicate 6000 99)
     = replicate 24000 97 @ truncation_marker @ replicate 6000 99 \<and>
   length (truncate (replicate 24000 97 @ replicate 7 98 @ replicate 6000 99)) = 30022"
  using truncate_spec [of "asc ''short paper''"]
    truncate_spec [of "replicate 24000 97 @ replicate 7 98 @ replicate 6000 99"]
  by (simp add: MAX_TEXT_LENGTH_def asc_def length_truncation_marker)

section \<open>Normalisation: properties\<close>

lemma dict_get_Nil: "dict_get [] k = None"
  by (simp add: dict_get_def)

lemma dict_get_dict_set: "dict_get (dict_set d k v) k' = (if k' = k then Some v else dict_get d k')"
  by (induction d) (auto simp: dict_get_def)

lemma dict_get_setdefault:
  "dict_get (setdefault d k v) k' =
     (if k' = k then (case dict_get d k of None \<Rightarrow> Some v | Some x \<Rightarrow> Some x) else dict_get d k')"
  by (auto simp: setdefault_def has_key_def dict_get_dict_set split: option.splits)

lemma dict_get_fold_setdefault:
  "dict_get (foldl (\<lambda>d (k, v). setdefault d k v) d kvs) k =
     (case dict_get d k of Some v \<Rightarrow> Some v | None \<Rightarrow> map_of kvs k)"
  by (induction kvs arbitrary: d) (auto simp: dict_get_setdefault split: option.splits)

lemma set_defaults_fold:
  "set_defaults d = foldl (\<lambda>d (k, v). setdefault d k v) d expected_defaults"
  unfolding set_defaults_def expected_defaults_def Let_def foldl.simps prod.case ..

lemma dict_get_set_defaults:
  "dict_get (set_defaults d) k =
     (case dict_get d k of Some v \<Rightarrow> Some v | None \<Rightarrow> map_of expected_defaults k)"
  by (simp only: set_defaults_fold dict_get_fold_setdefault)

lemma dict_get_coerce_list:
  "dict_get (coerce_list d key) k =
     (if k = key then coerce_value (dict_get d key) else dict_get d k)"
  by (auto simp: coerce_list_def coerce_value_def dict_get_dict_set split: option.splits json.splits)

lemma coerce_value_idem: "coerce_value (coerce_value v) = coerce_value v"
  by (auto simp: coerce_value_def split: option.splits json.splits)

lemma dict_get_normalise:
  "dict_get (normalise d) k =
     (if k \<in> set list_keys then coerce_value (dict_get (set_defaults d) k)
      else dict_get (set_defaults d) k)"
  by (auto simp: normalise_def dict_get_coerce_list list_keys_def coerce_value_idem)

lemma map_of_expected_keywords:
  "map_of expected_defaults (asc ''keywords'') = Some (JArr [])"
  "map_of expected_defaults (asc ''main_topics'') = Some (JArr [])"
  by (simp_all add: expected_defaults_def asc_def)

lemma map_of_expected_list_keys:
  "k \<in> set list_keys \<Longrightarrow> map_of expected_defaults k = Some (JArr [])"
  using map_of_expected_keywords by (auto simp: list_keys_def)

text \<open>
  C3 (as the code has it). After \<open>_normalise\<close> every expected key is present. A key
  missing from the reply gets the default of the table: \<open>None\<close> for title, authors
  and year, the empty list for keywords and main_topics, the empty string for
  key_findings and methodology, and "Medium", "Background", "English". A keywords or
  main_topics value that is a string becomes the list of its comma-separated items,
  trimmed, without the empty ones, in order. Every other value of the reply is kept.
\<close>

theorem normalise_spec:
  "(\<forall>k \<in> set (map fst expected_defaults). has_key (normalise data) k) \<and>
   (\<forall>k. \<not> has_key data k \<longrightarrow> dict_get (normalise data) k = map_of expected_defaults k) \<and>
   (\<forall>k s. k \<in> set list_keys \<and> dict_get data k = Some (JStr s) \<longrightarrow>
       dict_get (normalise data) k = Some (JArr (map JStr (split_items s)))) \<and>
   (\<forall>k v. dict_get data k = Some v \<and> \<not> (k \<in> set list_keys \<and> (\<exists>s. v = JStr s)) \<longrightarrow>
       dict_get (normalise data) k = Some v)"
proof (intro conjI allI ballI impI)
  fix k assume "k \<in> set (map fst expected_defaults)"
  then obtain v where "map_of expected_defaults k = Some v"
    by (metis map_of_eq_None_iff not_Some_eq set_map)
  then show "has_key (normalise data) k"
    by (auto simp: has_key_def dict_get_normalise dict_get_set_defaults coerce_value_def
        split: option.splits json.splits)
next
  fix k assume "\<not> has_key data k"
  then have "dict_get (set_defaults data) k = map_of expected_defaults k"
    by (simp add: has_key_def dict_get_set_defaults)
  then show "dict_get (normalise data) k = map_of expected_defaults k"
    by (auto simp: dict_get_normalise map_of_expected_list_keys coerce_value_def)
next
  fix k s assume "k \<in> set list_keys \<and> dict_get data k = Some (JStr s)"
  then show "dict_get (normalise data) k = Some (JArr (map JStr (split_items s)))"
    by (simp add: dict_get_normalise dict_get_set_defaults coerce_value_def)
next
  fix k v assume "dict_get data k = Some v \<and> \<not> (k \<in> set list_keys \<and> (\<exists>s. v = JStr s))"
  then show "dict_get (normalise data) k = Some v"
    by (auto simp: dict_get_normalise dict_get_set_defaults coerce_value_def split: json.splits)
qed

lemma split_items_abc: "split_items (asc ''a, b, c'') = [asc ''a'', asc ''b'', asc ''c'']"
  by (simp add: split_items_def strip_def lstrip_def rstrip_def is_space_def asc_def)

text \<open>
  C3 as stated fails: the default of a missing title is \<open>None\<close>, not the empty string.
\<close>

theorem normalise_defaults_counterexample:
  "\<not> has_key [] (asc ''title'') \<and> dict_get (normalise []) (asc ''title'') = Some JNull \<and>
   dict_get (normalise []) (asc ''title'') \<noteq> Some (JStr [])"
proof -
  have "dict_get (normalise []) (asc ''title'') = Some JNull"
    by (simp add: dict_get_normalise dict_get_set_defaults dict_get_Nil list_keys_def
        expected_defaults_def asc_def)
  then show ?thesis by (simp add: has_key_def dict_get_Nil)
qed

theorem normalise_spec_witness:
  "asc ''language'' \<in> set (map fst expected_defaults) \<and>
   has_key (normalise [(asc ''keywords'', JStr (asc ''a, b, c'')), (asc ''year'', JNum 2023)])
     (asc ''language'') \<and>
   \<not> has_key [(asc ''keywords'', JStr (asc ''a, b, c'')), (asc ''year'', JNum 2023)]
     (asc ''relevance_score'') \<and>
   dict_get (normalise [(asc ''keywords'', JStr (asc ''a, b, c'')), (asc ''year'', JNum 2023)])
     (asc ''relevance_score'') = Some (JStr (asc ''Medium'')) \<and>
   dict_get (normalise [(asc ''keywords'', JStr (asc ''a, b, c'')), (asc ''year'', JNum 2023)])
     (asc ''keywords'') = Some (JArr [JStr (asc ''a''), JStr (asc ''b''), JStr (asc ''c'')]) \<and>
   dict_get (normalise [(asc ''keywords'', JStr (asc ''a, b, c'')), (asc ''year'', JNum 2023)])
     (asc ''year'') = Some (JNum 2023)"
proof -
  let ?d = "[(asc ''keywords'', JStr (asc ''a, b, c'')), (asc ''year'', JNum 2023)]"
  note S = normalise_spec [of ?d]
  have mem: "asc ''language'' \<in> set (map fst expected_defaults)"
    by (simp add: expected_defaults_def)
  have a: "has_key (normalise ?d) (asc ''language'')"
    using S mem by blast
  have nk: "\<not> has_key ?d (asc ''relevance_score'')"
    by (simp add: has_key_def dict_get_def asc_def)
  have "dict_get (normalise ?d) (asc ''relevance_score'') = map_of expected_defaults (asc ''relevance_score'')"
    using S nk by blast
  then have b: "dict_get (normalise ?d) (asc ''relevance_score'') = Some (JStr (asc ''Medium''))"
    by (simp add: expected_defaults_def asc_def)
  have kw: "asc ''keywords'' \<in> set list_keys \<and> dict_get ?d (asc ''keywords'') = Some (JStr (asc ''a, b, c''))"
    by (simp add: list_keys_def dict_get_def)
  have "dict_get (normalise ?d) (asc ''keywords'') = Some (JArr (map JStr (split_items (asc ''a, b, c''))))"
    using S kw by blast
  then have c: "dict_get (normalise ?d) (asc ''keywords'')
      = Some (JArr [JStr (asc ''a''), JStr (asc ''b''), JStr (asc ''c'')])"
    by (simp add: split_items_abc)
  have yr: "dict_get ?d (asc ''year'') = Some (JNum 2023) \<and>
      \<not> (asc ''year'' \<in> set list_keys \<and> (\<exists>s. JNum 2023 = JStr s))"
    by (simp add: dict_get_def asc_def)
  have d: "dict_get (normalise ?d) (asc ''year'') = Some (JNum 2023)"
    using S yr by blast
  show ?thesis using mem a nk b c d by blast
qed

section \<open>Duplicate Guard: properties\<close>



















section \<open>Document Extractor: properties\<close>

lemma filter_dropWhile_space:
  "filter (\<lambda>c. \<not> is_space c) (dropWhile is_space xs) = filter (\<lambda>c. \<not> is_space c) xs"
  by (induction xs) auto

lemma filter_rstrip_space:
  "filter (\<lambda>c. \<not> is_space c) (rev (dropWhile is_space (rev u))) = filter (\<lambda>c. \<not> is_space c) u"
proof -
  have "filter (\<lambda>c. \<not> is_space c) (rev (dropWhile is_space (rev u)))
        = rev (filter (\<lambda>c. \<not> is_space c) (dropWhile is_space (rev u)))"
    by (rule rev_filter [symmetric])
  also have "\<dots> = rev (filter (\<lambda>c. \<not> is_space c) (rev u))"
    by (simp only: filter_dropWhile_space)
  also have "\<dots> = filter (\<lambda>c. \<not> is_space c) u"
    by (simp add: rev_filter [symmetric])
  finally show ?thesis .
qed

lemma non_whitespace_strip: "non_whitespace_length (strip t) = non_whitespace_length t"
  by (simp add: non_whitespace_length_def strip_def lstrip_def rstrip_def
      filter_rstrip_space filter_dropWhile_space)

lemma non_whitespace_le_strip: "non_whitespace_length t \<le> length (strip t)"
proof -
  have "non_whitespace_length (strip t) \<le> length (strip t)"
    by (simp add: non_whitespace_length_def)
  then show ?thesis by (simp add: non_whitespace_strip)
qed

lemma length_strip_le: "length (strip t) \<le> length t"
proof -
  have "length (dropWhile is_space (rev (dropWhile is_space t))) \<le> length (dropWhile is_space t)"
    using length_dropWhile_le [of is_space "rev (dropWhile is_space t)"] by simp
  also have "\<dots> \<le> length t" by (rule length_dropWhile_le)
  finally show ?thesis by (simp add: strip_def lstrip_def rstrip_def)
qed

lemma extract_openable:
  assumes "fs (abspath path) = Some (Pdf doc)"
    and "\<not> is_encrypted doc \<or> authenticate_empty doc"
  shows "fst (extract_text_from_pdf abspath search fs path) =
     (if length (strip (raw_text doc)) < 100 \<and> 0 < length (page_texts doc)
      then Inl (scanned_error (length (strip (raw_text doc))) (length (page_texts doc)))
      else Inr \<lparr>paper_title = detect_title (clean_text (raw_text doc))
                                 (meta_get (doc_metadata doc) (asc ''title'')),
                paper_authors = meta_get (doc_metadata doc) (asc ''author''),
                paper_abstract = detect_abstract search (clean_text (raw_text doc)),
                body_text = clean_text (raw_text doc),
                num_pages = length (page_texts doc),
                source_path = abspath path,
                paper_metadata = doc_metadata doc\<rparr>)"
  using assms by (auto simp: extract_text_from_pdf_def Let_def)

text \<open>
  C6 (as the code has it). For an openable PDF that is not encrypted, or that the empty
  password opens, extraction fails with the likely-scanned error if and only if the
  joined page text, trimmed of leading and trailing whitespace, is shorter than 100
  characters while the page count is positive; otherwise a document is constructed. A
  document of 5 pages yielding 40 characters is rejected; one of 5 pages yielding 500
  non-whitespace characters is not. A constructed document with a positive page count
  has a trimmed extracted text of at least 100 characters.
\<close>

theorem extract_scanned_iff:
  assumes "fs (abspath path) = Some (Pdf doc)"
    and "\<not> is_encrypted doc \<or> authenticate_empty doc"
  shows "(fst (extract_text_from_pdf abspath search fs path)
            = Inl (scanned_error (length (strip (raw_text doc))) (length (page_texts doc)))
          \<longleftrightarrow> length (strip (raw_text doc)) < 100 \<and> 0 < length (page_texts doc)) \<and>
         ((\<exists>paper. fst (extract_text_from_pdf abspath search fs path) = Inr paper)
          \<longleftrightarrow> \<not> (length (strip (raw_text doc)) < 100 \<and> 0 < length (page_texts doc))) \<and>
         (length (page_texts doc) = 5 \<and> length (raw_text doc) = 40 \<longrightarrow>
            fst (extract_text_from_pdf abspath search fs path)
              = Inl (scanned_error (length (strip (raw_text doc))) 5)) \<and>
         (length (page_texts doc) = 5 \<and> non_whitespace_length (raw_text doc) = 500 \<longrightarrow>
            (\<exists>paper. fst (extract_text_from_pdf abspath search fs path) = Inr paper)) \<and>
         (\<forall>paper. fst (extract_text_from_pdf abspath search fs path) = Inr paper \<and>
              0 < num_pages paper \<longrightarrow> 100 \<le> length (strip (raw_text doc)))"
proof -
  note E = extract_openable [where fs = fs and abspath = abspath and path = path and search = search, OF assms]
  have a: "fst (extract_text_from_pdf abspath search fs path)
            = Inl (scanned_error (length (strip (raw_text doc))) (length (page_texts doc)))
          \<longleftrightarrow> length (strip (raw_text doc)) < 100 \<and> 0 < length (page_texts doc)"
    by (simp add: E)
  have b: "(\<exists>paper. fst (extract_text_from_pdf abspath search fs path) = Inr paper)
          \<longleftrightarrow> \<not> (length (strip (raw_text doc)) < 100 \<and> 0 < length (page_texts doc))"
    by (simp add: E)
  have c: "length (page_texts doc) = 5 \<and> length (raw_text doc) = 40 \<longrightarrow>
            fst (extract_text_from_pdf abspath search fs path)
              = Inl (scanned_error (length (strip (raw_text doc))) 5)"
    using length_strip_le [of "raw_text doc"] by (simp add: E)
  have d: "length (page_texts doc) = 5 \<and> non_whitespace_length (raw_text doc) = 500 \<longrightarrow>
            (\<exists>paper. fst (extract_text_from_pdf abspath search fs path) = Inr paper)"
    using non_whitespace_le_strip [of "raw_text doc"] by (simp add: E)
  have e: "\<forall>paper. fst (extract_text_from_pdf abspath search fs path) = Inr paper \<and>
              0 < num_pages paper \<longrightarrow> 100 \<le> length (strip (raw_text doc))"
    by (auto simp: E split: if_splits)
  show ?thesis using a b c d e by blast
qed

lemma strip_no_space_ends:
  "\<not> is_space a \<Longrightarrow> \<not> is_space b \<Longrightarrow> strip (a # m @ [b]) = a # m @ [b]"
  by (simp add: strip_def lstrip_def rstrip_def)

lemma strip_replicate: "\<not> is_space x \<Longrightarrow> strip (replicate n x) = replicate n x"
  by (simp add: strip_def lstrip_def rstrip_def dropWhile_replicate)

lemma not_space_letters: "\<not> is_space 97" "\<not> is_space 98" "\<not> is_space 120" "is_space 32"
  by (simp_all add: is_space_def)

theorem extract_scanned_iff_witness:
  "fst (extract_text_from_pdf (\<lambda>p. p) (\<lambda>t. None)
         (\<lambda>p. Some (Pdf \<lparr>is_encrypted = False, authenticate_empty = False,
                            page_texts = [replicate 40 120, [], [], [], []],
                            doc_metadata = []\<rparr>))
         (asc ''/tmp/scan.pdf''))
     = Inl (scanned_error 40 5) \<and>
   (\<exists>paper. fst (extract_text_from_pdf (\<lambda>p. p) (\<lambda>t. None)
         (\<lambda>p. Some (Pdf \<lparr>is_encrypted = False, authenticate_empty = False,
                            page_texts = [replicate 500 120, [], [], [], []],
                            doc_metadata = []\<rparr>))
         (asc ''/tmp/text.pdf'')) = Inr paper)"
proof -
  let ?d40 = "\<lparr>is_encrypted = False, authenticate_empty = False,
               page_texts = [replicate 40 120, [], [], [], []], doc_metadata = []\<rparr>"
  let ?d500 = "\<lparr>is_encrypted = False, authenticate_empty = False,
               page_texts = [replicate 500 120, [], [], [], []], doc_metadata = []\<rparr>"
  have e: "strip [] = []" by (simp add: strip_def lstrip_def rstrip_def)
  have five: "Suc (Suc (Suc (Suc (Suc 0)))) = 5" by simp
  have r40: "raw_text ?d40 = replicate 40 120"
    by (simp add: raw_text_def strip_replicate not_space_letters e)
  have r500: "raw_text ?d500 = replicate 500 120"
    by (simp add: raw_text_def strip_replicate not_space_letters e)
  have n500: "non_whitespace_length (replicate 500 120) = 500"
    by (simp add: non_whitespace_length_def not_space_letters)
  have a: "fst (extract_text_from_pdf (\<lambda>p. p) (\<lambda>t. None) (\<lambda>p. Some (Pdf ?d40))
         (asc ''/tmp/scan.pdf'')) = Inl (scanned_error 40 5)"
    using extract_scanned_iff [where abspath = "\<lambda>p. p" and fs = "\<lambda>p. Some (Pdf ?d40)"
        and doc = ?d40 and search = "\<lambda>t. None" and path = "asc ''/tmp/scan.pdf''",
        THEN conjunct2, THEN conjunct2, THEN conjunct1]
    by (simp add: r40 strip_replicate not_space_letters)
  have b: "\<exists>paper. fst (extract_text_from_pdf (\<lambda>p. p) (\<lambda>t. None) (\<lambda>p. Some (Pdf ?d500))
         (asc ''/tmp/text.pdf'')) = Inr paper"
    using extract_scanned_iff [where abspath = "\<lambda>p. p" and fs = "\<lambda>p. Some (Pdf ?d500)"
        and doc = ?d500 and search = "\<lambda>t. None" and path = "asc ''/tmp/text.pdf''",
        THEN conjunct2, THEN conjunct2, THEN conjunct2, THEN conjunct1]
    by (simp add: r500 n500)
  show ?thesis using a b by blast
qed

text \<open>
  C6 as stated fails twice. A 5-page document whose text has 2 non-whitespace
  characters, 100 spaces apart, is not rejected: the length that is compared counts the
  inner whitespace. And a document without pages is constructed with an empty text.
\<close>

theorem extract_threshold_counterexample:
  "non_whitespace_length (raw_text \<lparr>is_encrypted = False, authenticate_empty = False,
        page_texts = [97 # replicate 100 32 @ [98], [], [], [], []], doc_metadata = []\<rparr>) = 2 \<and>
   \<not> isl (fst (extract_text_from_pdf (\<lambda>p. p) (\<lambda>t. None)
         (\<lambda>p. Some (Pdf \<lparr>is_encrypted = False, authenticate_empty = False,
                            page_texts = [97 # replicate 100 32 @ [98], [], [], [], []],
                            doc_metadata = []\<rparr>))
         (asc ''/tmp/spaced.pdf''))) \<and>
   fst (extract_text_from_pdf (\<lambda>p. p) (\<lambda>t. None)
         (\<lambda>p. Some (Pdf \<lparr>is_encrypted = False, authenticate_empty = False,
                            page_texts = [], doc_metadata = []\<rparr>))
         (asc ''/tmp/empty.pdf''))
     = Inr \<lparr>paper_title = None, paper_authors = None, paper_abstract = None, body_text = [],
            num_pages = 0, source_path = asc ''/tmp/empty.pdf'', paper_metadata = []\<rparr>"
proof -
  let ?da = "\<lparr>is_encrypted = False, authenticate_empty = False,
        page_texts = [97 # replicate 100 32 @ [98], [], [], [], []], doc_metadata = []\<rparr>"
  let ?d0 = "\<lparr>is_encrypted = False, authenticate_empty = False,
        page_texts = [], doc_metadata = []\<rparr>"
  have e: "strip [] = []" by (simp add: strip_def lstrip_def rstrip_def)
  have ra: "raw_text ?da = 97 # replicate 100 32 @ [98]"
    by (simp add: raw_text_def strip_no_space_ends not_space_letters e)
  have a: "non_whitespace_length (raw_text ?da) = 2"
    by (simp add: ra non_whitespace_length_def not_space_letters)
  have b: "\<not> isl (fst (extract_text_from_pdf (\<lambda>p. p) (\<lambda>t. None) (\<lambda>p. Some (Pdf ?da))
         (asc ''/tmp/spaced.pdf'')))"
    by (simp add: extract_openable [where doc = ?da] ra strip_no_space_ends not_space_letters)
  have r0: "raw_text ?d0 = []" by (simp add: raw_text_def)
  have c0: "clean_text [] = []"
    by (simp add: clean_text_def fix_ligatures_def e rstrip_def)
  have c: "fst (extract_text_from_pdf (\<lambda>p. p) (\<lambda>t. None) (\<lambda>p. Some (Pdf ?d0))
         (asc ''/tmp/empty.pdf''))
     = Inr \<lparr>paper_title = None, paper_authors = None, paper_abstract = None, body_text = [],
            num_pages = 0, source_path = asc ''/tmp/empty.pdf'', paper_metadata = []\<rparr>"
    by (simp add: extract_openable [where doc = ?d0] r0 c0 e detect_title_def nonempty_def
        meta_get_def detect_abstract_def)
  show ?thesis using a b c by blast
qed

section \<open>Acquisition Resolver: properties\<close>

lemma fst_download_try: "fst (download_try answer fs) = fst (download_try answer fs')"
  by (simp add: download_try_def Let_def split: sum.splits option.splits)

lemma download_attempts_all_fail:
  assumes "\<forall>a \<in> set attempts. \<exists>m. fst (download_try (fetch a url) Map.empty) = Inl (RequestException m)"
  shows "\<exists>le events fs1. download_attempts fetch url attempts fs last_error = (Inl (download_error url le), fs1, events)
       \<and> requests_made events = length attempts
       \<and> sleeps events = replicate (length (filter (\<lambda>a. a < REQUEST_RETRY_COUNT) attempts)) REQUEST_RETRY_DELAY
       \<and> (attempts \<noteq> [] \<longrightarrow> le = (case fst (download_try (fetch (last attempts) url) Map.empty) of Inl e \<Rightarrow> Some e | Inr _ \<Rightarrow> None))
       \<and> (attempts = [] \<longrightarrow> le = last_error)"
  using assms
proof (induction attempts arbitrary: fs last_error)
  case Nil
  then show ?case by (simp add: requests_made_def sleeps_def)
next
  case (Cons a attempts)
  then obtain m where m: "fst (download_try (fetch a url) Map.empty) = Inl (RequestException m)"
    by auto
  then have "fst (download_try (fetch a url) fs) = Inl (RequestException m)"
    using fst_download_try by metis
  then obtain fs1 where t: "download_try (fetch a url) fs = (Inl (RequestException m), fs1)"
    by (cases "download_try (fetch a url) fs") auto
  from Cons have "\<forall>a \<in> set attempts. \<exists>m. fst (download_try (fetch a url) Map.empty) = Inl (RequestException m)"
    by simp
  from Cons.IH [OF this, of fs1 "Some (RequestException m)"]
  obtain le events fs2 where r: "download_attempts fetch url attempts fs1 (Some (RequestException m)) = (Inl (download_error url le), fs2, events)"
    "requests_made events = length attempts"
    "sleeps events = replicate (length (filter (\<lambda>a. a < REQUEST_RETRY_COUNT) attempts)) REQUEST_RETRY_DELAY"
    "attempts \<noteq> [] \<longrightarrow> le = (case fst (download_try (fetch (last attempts) url) Map.empty) of Inl e \<Rightarrow> Some e | Inr _ \<Rightarrow> None)"
    "attempts = [] \<longrightarrow> le = Some (RequestException m)"
    by blast
  show ?case
    using t r m by (auto simp: requests_made_def sleeps_def)
qed


lemma rewrite_events_quiet:
  "requests_made (snd (rewrite_arxiv u)) = 0" "sleeps (snd (rewrite_arxiv u)) = []"
  "requests_made (snd (rewrite_sciencedirect u)) = 0" "sleeps (snd (rewrite_sciencedirect u)) = []"
  by (simp_all add: rewrite_arxiv_def rewrite_sciencedirect_def requests_made_def sleeps_def Let_def)

lemma requests_made_append: "requests_made (xs @ ys) = requests_made xs + requests_made ys"
  by (simp add: requests_made_def)

lemma sleeps_append: "sleeps (xs @ ys) = sleeps xs @ sleeps ys"
  by (simp add: sleeps_def)

lemma download_pdf_unfold:
  "download_pdf fetch fs input_url =
     (case download_attempts fetch (rewritten_url input_url) [1, 2, 3] fs None of
        (res, fs1, events3) \<Rightarrow>
          (res, fs1, snd (rewrite_arxiv input_url)
                     @ snd (rewrite_sciencedirect (fst (rewrite_arxiv input_url))) @ events3))"
proof -
  have three: "[1 ..< REQUEST_RETRY_COUNT + 1] = [1, 2, 3]"
    by (simp add: REQUEST_RETRY_COUNT_def upt_rec)
  show ?thesis
    by (simp only: download_pdf_def three rewritten_url_def split_def Let_def)
qed

lemma download_pdf_all_fail:
  assumes "\<forall>a. \<exists>m. fst (download_try (fetch a (rewritten_url input_url)) Map.empty)
             = Inl (RequestException m)"
  shows "\<exists>m fs1 events.
           download_pdf fetch fs input_url
             = (Inl (download_error (rewritten_url input_url) (Some (RequestException m))), fs1, events) \<and>
           fst (download_try (fetch 3 (rewritten_url input_url)) Map.empty) = Inl (RequestException m) \<and>
           requests_made events = 3 \<and> sleeps events = [2, 2]"
proof -
  let ?url = "rewritten_url input_url"
  let ?e1 = "snd (rewrite_arxiv input_url)"
  let ?e2 = "snd (rewrite_sciencedirect (fst (rewrite_arxiv input_url)))"
  have all: "\<forall>a \<in> set [1, 2, 3 :: nat]. \<exists>m. fst (download_try (fetch a ?url) Map.empty)
             = Inl (RequestException m)"
    using assms by blast
  have flt: "filter (\<lambda>a. a < REQUEST_RETRY_COUNT) [1, 2, 3] = [1, 2]"
    by (simp add: REQUEST_RETRY_COUNT_def)
  have rep: "replicate (length [1, 2 :: nat]) REQUEST_RETRY_DELAY = [2, 2]"
    by (simp add: REQUEST_RETRY_DELAY_def)
  have len: "length [1, 2, 3 :: nat] = 3" "last [1, 2, 3 :: nat] = 3" "[1, 2, 3 :: nat] \<noteq> []"
    by simp_all
  note A = download_attempts_all_fail [where fetch = fetch and url = ?url
      and attempts = "[1, 2, 3]" and fs = fs and last_error = None, OF all, unfolded flt rep len]
  then obtain le events fs1 where r:
    "download_attempts fetch ?url [1, 2, 3] fs None = (Inl (download_error ?url le), fs1, events)"
    "requests_made events = 3"
    "sleeps events = [2, 2]"
    "le = (case fst (download_try (fetch 3 ?url) Map.empty) of Inl e \<Rightarrow> Some e | Inr _ \<Rightarrow> None)"
    by blast
  obtain m where m: "fst (download_try (fetch 3 ?url) Map.empty) = Inl (RequestException m)"
    using assms by blast
  have le: "le = Some (RequestException m)" using r(4) m by simp
  have d: "download_pdf fetch fs input_url
      = (Inl (download_error ?url (Some (RequestException m))), fs1, ?e1 @ ?e2 @ events)"
    by (simp only: download_pdf_unfold r(1) le prod.case)
  have q: "requests_made (?e1 @ ?e2 @ events) = 3 \<and> sleeps (?e1 @ ?e2 @ events) = [2, 2]"
    by (simp add: requests_made_append sleeps_append rewrite_events_quiet r(2,3))
  show ?thesis using d m q by blast
qed

lemma rewritten_2403:
  "rewritten_url (asc ''https://arxiv.org/abs/2403.00001'') = asc ''https://arxiv.org/pdf/2403.00001.pdf''"
  by (simp add: rewritten_url_def rewrite_arxiv_def rewrite_sciencedirect_def startswith_def
      endswith_def Let_def asc_def)

lemma try_404:
  "fst (download_try (always_404 a u) fs) = Inl (RequestException (asc ''404 Client Error: Not Found for url: '' @ u))"
  by (simp add: download_try_def always_404_def not_found_response_def raise_for_status_def
      http_error_msg_def str_nat.simps asc_def)

lemma error_2403:
  "download_error (asc ''https://arxiv.org/pdf/2403.00001.pdf'')
     (Some (RequestException (asc ''404 Client Error: Not Found for url: https://arxiv.org/pdf/2403.00001.pdf'')))
   = RuntimeError (asc ''Download failed after 3 attempts: 404 Client Error: Not Found for url: https://arxiv.org/pdf/2403.00001.pdf'' @ blocked_hint)"
  by (simp add: download_error_def str_last_error_def REQUEST_RETRY_COUNT_def str_nat.simps
      startswith_def Let_def asc_def)

lemma no_check_url:
  "\<not> contains (asc ''Check that the URL is correct'')
      (asc ''Download failed after 3 attempts: 404 Client Error: Not Found for url: https://arxiv.org/pdf/2403.00001.pdf'' @ blocked_hint)"
  by (simp add: blocked_hint_def startswith_def asc_def)

text \<open>
  C8, at the URL of an arXiv paper of March 2024 that does not exist. Every request is
  answered 404 Not Found. The download fails after 3 requests and two sleeps of 2
  seconds, but the text of the error of the requests library names the URL, which
  contains "403": the message carries the hint for a blocked URL and never says to
  check the URL.
\<close>

theorem download_404_reported_as_403:
  "fst (download_pdf always_404 Map.empty (asc ''https://arxiv.org/abs/2403.00001''))
     = Inl (RuntimeError
         (asc ''Download failed after 3 attempts: 404 Client Error: Not Found for url: https://arxiv.org/pdf/2403.00001.pdf''
          @ blocked_hint)) \<and>
   \<not> contains (asc ''Check that the URL is correct'')
      (asc ''Download failed after 3 attempts: 404 Client Error: Not Found for url: https://arxiv.org/pdf/2403.00001.pdf''
       @ blocked_hint) \<and>
   requests_made (snd (snd (download_pdf always_404 Map.empty
      (asc ''https://arxiv.org/abs/2403.00001'')))) = 3 \<and>
   sleeps (snd (snd (download_pdf always_404 Map.empty
      (asc ''https://arxiv.org/abs/2403.00001'')))) = [2, 2]"
proof -
  let ?u = "asc ''https://arxiv.org/pdf/2403.00001.pdf''"
  have "\<forall>a. \<exists>m. fst (download_try (always_404 a (rewritten_url (asc ''https://arxiv.org/abs/2403.00001''))) Map.empty)
             = Inl (RequestException m)"
    by (simp add: try_404)
  from download_pdf_all_fail [where fetch = always_404
      and input_url = "asc ''https://arxiv.org/abs/2403.00001''" and fs = Map.empty, OF this]
  obtain m fs1 events where r:
    "download_pdf always_404 Map.empty (asc ''https://arxiv.org/abs/2403.00001'')
       = (Inl (download_error ?u (Some (RequestException m))), fs1, events)"
    "fst (download_try (always_404 3 ?u) Map.empty) = Inl (RequestException m)"
    "requests_made events = 3" "sleeps events = [2, 2]"
    unfolding rewritten_2403 by blast
  have m: "m = asc ''404 Client Error: Not Found for url: '' @ ?u"
    using r(2) by (simp add: try_404)
  have m': "m = asc ''404 Client Error: Not Found for url: https://arxiv.org/pdf/2403.00001.pdf''"
    unfolding m by (simp add: asc_def)
  show ?thesis
    using no_check_url by (simp add: r m' error_2403)
qed



















section \<open>Metadata Analyzer: errors and retries\<close>

lemma attempts_list: "[1 ..< REQUEST_RETRY_COUNT + 1] = [1, 2, 3]"
  by (simp add: REQUEST_RETRY_COUNT_def upt_rec)






lemma analyze_try_object:
  assumes "reply \<noteq> []" and "loads (strip_fences reply) = Inr (JObj d)"
  shows "analyze_try loads (Inr reply) = Inr (normalise d)"
  using assms by (simp add: analyze_try_def parse_response_def)

lemma calls_made_append: "calls_made (xs @ ys) = calls_made xs + calls_made ys"
  by (simp add: calls_made_def)





















section \<open>Pipeline Orchestrator: properties\<close>

lemma download_try_returns:
  "download_try answer fs = (Inr name, fs1) \<Longrightarrow> name \<noteq> [] \<and> fs1 name \<noteq> None"
  by (auto simp: download_try_def temp_name_def asc_def Let_def
      split: sum.splits option.splits if_splits)

lemma download_attempts_returns:
  "download_attempts fetch url attempts fs last_error = (Inr name, fs1, events)
     \<Longrightarrow> name \<noteq> [] \<and> fs1 name \<noteq> None"
proof (induction attempts arbitrary: fs last_error events)
  case Nil
  then show ?case by simp
next
  case (Cons a attempts)
  obtain r fs' where t: "download_try (fetch a url) fs = (r, fs')"
    by (cases "download_try (fetch a url) fs") auto
  show ?case
  proof (cases r)
    case (Inr nm)
    then show ?thesis using Cons.prems t download_try_returns [of "fetch a url" fs nm fs']
      by auto
  next
    case (Inl e)
    show ?thesis
    proof (cases e)
      case (RequestException m)
      obtain res fs2 ev2 where rec:
        "download_attempts fetch url attempts fs' (Some (RequestException m)) = (res, fs2, ev2)"
        by (cases "download_attempts fetch url attempts fs' (Some (RequestException m))") auto
      with Cons.prems t Inl RequestException have "res = Inr name" "fs2 = fs1"
        by auto
      with rec Cons.IH show ?thesis by blast
    qed (use Cons.prems t Inl in auto)
  qed
qed

lemma download_pdf_returns:
  assumes "download_pdf fetch fs input_url = (Inr name, fs1, events)"
  shows "name \<noteq> [] \<and> fs1 name \<noteq> None"
proof -
  obtain res fs2 ev where d:
    "download_attempts fetch (fst (rewrite_sciencedirect (fst (rewrite_arxiv input_url))))
       [1 ..< REQUEST_RETRY_COUNT + 1] fs None = (res, fs2, ev)"
    by (metis prod_cases3)
  have "download_pdf fetch fs input_url
      = (res, fs2, snd (rewrite_arxiv input_url)
                   @ snd (rewrite_sciencedirect (fst (rewrite_arxiv input_url))) @ ev)"
    by (simp only: download_pdf_def split_def Let_def d fst_conv snd_conv)
  with assms have "res = Inr name" "fs2 = fs1" by auto
  with d show ?thesis using download_attempts_returns by blast
qed

lemma finally_downloaded:
  assumes "name \<noteq> []"
  shows "fst (finally_block (Some name) True fs) = fs(name := None)"
  using assms by (auto simp: finally_block_def nonempty_def isfile_def)

lemma finally_not_downloaded: "finally_block pdf_path False fs = (fs, [])"
  by (simp add: finally_block_def)

lemma process_single_paper_url:
  assumes "download_pdf (w_fetch w) fs input_path = (Inr name, fs1, events)"
  shows "fst (snd (process_single_paper w fs input_path source True)) = fs1(name := None)"
proof -
  have ne: "name \<noteq> []" using download_pdf_returns [OF assms] by simp
  obtain res ev2 where p: "process_pdf w fs1 name input_path source = (res, ev2)"
    by (cases "process_pdf w fs1 name input_path source") auto
  have t: "try_block w fs input_path source True = (res, Some name, True, fs1, events @ ev2)"
    by (simp add: try_block_def assms p)
  obtain res2 ev3 where x: "except_block res = (res2, ev3)"
    by (cases "except_block res") auto
  obtain fs2 ev4 where f: "finally_block (Some name) True fs1 = (fs2, ev4)"
    by (cases "finally_block (Some name) True fs1") auto
  have "fs2 = fs1(name := None)" using finally_downloaded [OF ne, of fs1] f by simp
  then show ?thesis by (simp add: process_single_paper_def t x f)
qed

lemma process_single_paper_local:
  "fst (snd (process_single_paper w fs input_path source False)) = fs"
proof -
  have "\<exists>res pp ev. try_block w fs input_path source False = (res, pp, False, fs, ev)"
    by (cases "process_pdf w fs (w_abspath w input_path) (w_abspath w input_path) source")
      (simp add: try_block_def Let_def)
  then obtain res pp ev where t: "try_block w fs input_path source False = (res, pp, False, fs, ev)"
    by blast
  obtain res2 ev3 where x: "except_block res = (res2, ev3)"
    by (cases "except_block res") auto
  show ?thesis by (simp add: process_single_paper_def t x finally_not_downloaded)
qed

text \<open>
  C1. Whatever the world does, when the input is a URL and \<open>download_pdf\<close> returns
  a temp path, that file exists after the download and is gone when
  \<open>process_single_paper\<close> is left, whether it returns \<open>True\<close>, returns \<open>False\<close>
  or raises; no other file is touched. When the input is a local path, the file system
  is left as it was: the caller's file is never deleted.
\<close>

theorem temp_file_cleanup:
  "(\<forall>name fs1 events.
      download_pdf (w_fetch w) fs input_path = (Inr name, fs1, events) \<longrightarrow>
      fs1 name \<noteq> None \<and>
      fst (snd (process_single_paper w fs input_path source True)) name = None \<and>
      (\<forall>other. other \<noteq> name \<longrightarrow>
         fst (snd (process_single_paper w fs input_path source True)) other = fs1 other)) \<and>
   fst (snd (process_single_paper w fs input_path source False)) = fs"
proof (intro conjI allI impI)
  fix name fs1 events
  assume d: "download_pdf (w_fetch w) fs input_path = (Inr name, fs1, events)"
  show "fs1 name \<noteq> None" using download_pdf_returns [OF d] by simp
  show "fst (snd (process_single_paper w fs input_path source True)) name = None"
    by (simp add: process_single_paper_url [OF d])
  fix other
  assume "other \<noteq> name"
  then show "fst (snd (process_single_paper w fs input_path source True)) other = fs1 other"
    by (simp add: process_single_paper_url [OF d])
next
  show "fst (snd (process_single_paper w fs input_path source False)) = fs"
    by (rule process_single_paper_local)
qed

lemma demo_download:
  "download_pdf (w_fetch (demo_world f loads)) Map.empty (asc ''https://example.org/paper.pdf'')
     = (Inr (asc ''/tmp/tmpab12.pdf''), [asc ''/tmp/tmpab12.pdf'' \<mapsto> f],
        [Log INFO, HttpGet (asc ''https://example.org/paper.pdf''), Log INFO])"
proof -
  have u: "rewritten_url (asc ''https://example.org/paper.pdf'') = asc ''https://example.org/paper.pdf''"
    by (simp add: rewritten_url_def rewrite_arxiv_def rewrite_sciencedirect_def startswith_def asc_def)
  have e: "snd (rewrite_arxiv (asc ''https://example.org/paper.pdf'')) = []"
    "snd (rewrite_sciencedirect (fst (rewrite_arxiv (asc ''https://example.org/paper.pdf'')))) = []"
    by (simp_all add: rewrite_arxiv_def rewrite_sciencedirect_def startswith_def asc_def)
  have t: "download_try (w_fetch (demo_world f loads) a u) fs
      = (Inr (asc ''/tmp/tmpab12.pdf''), fs(asc ''/tmp/tmpab12.pdf'' \<mapsto> f))" for a u fs
    by (simp add: download_try_def demo_world_def raise_for_status_def ok_reply_def temp_name_def
        asc_def)
  show ?thesis
    by (simp add: download_pdf_unfold u e t)
qed

lemma extract_locked:
  "extract_text_from_pdf (\<lambda>path. path) search [name \<mapsto> locked_pdf] name
     = (Inl (password_error name), [Log INFO])"
  by (simp add: extract_text_from_pdf_def locked_pdf_def)

lemma except_password: "except_block (Inl (password_error name)) = (Inr False, [Log ERROR])"
  by (simp add: except_block_def password_error_def)

lemma run_locked:
  "fst (process_single_paper (demo_world locked_pdf loads) Map.empty
     (asc ''https://example.org/paper.pdf'') source True) = Inr False"
proof -
  have w: "w_abspath (demo_world locked_pdf loads) = (\<lambda>path. path)"
    by (simp add: demo_world_def)
  have p: "process_pdf (demo_world locked_pdf loads) [asc ''/tmp/tmpab12.pdf'' \<mapsto> locked_pdf]
       (asc ''/tmp/tmpab12.pdf'') link source
     = (Inl (password_error (asc ''/tmp/tmpab12.pdf'')), [Log INFO])" for link
    by (simp add: process_pdf_def w extract_locked)
  show ?thesis
    by (simp add: process_single_paper_def try_block_def demo_download p except_password
        split_def)
qed


lemma analyze_first_ok:
  assumes "analyze_try loads (generate 1 (prompt_head @ truncate paper_text)) = Inr result"
  shows "analyze_paper loads generate paper_text
           = (Inr result,
              truncate_events paper_text
              @ [Log INFO, GenerateContent (prompt_head @ truncate paper_text), Log INFO])"
  unfolding analyze_paper_def attempts_list using assms by simp

lemma sample_raw: "raw_text \<lparr>is_encrypted = False, authenticate_empty = False,
                       page_texts = [sample_page], doc_metadata = []\<rparr> = sample_page"
  by (simp add: raw_text_def sample_page_def strip_def lstrip_def rstrip_def is_space_def asc_def)

lemma sample_strip: "strip sample_page = sample_page"
  by (simp add: sample_page_def strip_def lstrip_def rstrip_def is_space_def asc_def)

lemma sample_length: "length sample_page = 127"
  by (simp add: sample_page_def asc_def)

lemma sample_clean: "clean_text sample_page = sample_page"
  by (simp add: clean_text_def fix_ligatures_def startswith_def sample_page_def strip_def
      lstrip_def rstrip_def is_space_def asc_def)

lemma sample_title: "detect_title sample_page None = Some (asc ''A Survey of Deep Learning'')"
  by (simp add: detect_title_def nonempty_def sample_page_def strip_def lstrip_def rstrip_def
      is_space_def asc_def)

lemma extract_sample:
  "extract_text_from_pdf (\<lambda>path. path) (\<lambda>text. None)
     [asc ''/tmp/tmpab12.pdf'' \<mapsto> one_page_pdf] (asc ''/tmp/tmpab12.pdf'')
     = (Inr sample_paper, [Log INFO])"
  by (simp add: extract_text_from_pdf_def one_page_pdf_def sample_raw sample_strip sample_length
      sample_clean sample_title meta_get_def detect_abstract_def sample_paper_def Let_def)

lemma demo_no_duplicate:
  "fst (check_duplicate (\<lambda>s. s) (\<lambda>query. Inr (results_reply [])) (asc ''A Survey of Deep Learning''))
     = Inr JNull"
  by (simp add: check_duplicate_def read_reply_def raise_for_status_def results_reply_def
      ok_reply_def py_get_def dict_get_def py_iter_def Let_def asc_def)

lemma demo_try:
  "analyze_try (\<lambda>s. Inr (JObj d)) (Inr (asc ''{}'')) = Inr (normalise d)"
  by (simp add: analyze_try_def parse_response_def asc_def)

lemma key_neq:
  "asc ''keywords'' \<noteq> asc ''title''" "asc ''keywords'' \<noteq> asc ''authors''"
  "asc ''main_topics'' \<noteq> asc ''title''" "asc ''main_topics'' \<noteq> asc ''authors''"
  by (simp_all add: asc_def)

lemma dict_get_fill_from_pdf:
  "k \<noteq> asc ''title'' \<Longrightarrow> k \<noteq> asc ''authors'' \<Longrightarrow>
   dict_get (fill_from_pdf analysis paper) k = dict_get analysis k"
  by (simp add: fill_from_pdf_def Let_def dict_get_dict_set)

lemma normalise_empty_lists:
  "dict_get (normalise []) (asc ''keywords'') = Some (JArr [])"
  "dict_get (normalise []) (asc ''main_topics'') = Some (JArr [])"
  by (simp_all add: dict_get_normalise dict_get_set_defaults dict_get_Nil
      map_of_expected_keywords list_keys_def coerce_value_def)

lemma filled_keywords:
  "dict_get (fill_from_pdf (normalise []) paper) (asc ''keywords'') = Some (JArr [])"
  "dict_get (fill_from_pdf (normalise []) paper) (asc ''main_topics'') = Some (JArr [])"
  by (simp_all add: dict_get_fill_from_pdf key_neq normalise_empty_lists)

lemma demo_created:
  "create_paper_page (demo_world f loads) (fill_from_pdf (normalise []) paper) source link
     = (Inr (JStr (asc ''https://notion.so/new'')),
        [Log INFO,
         CreatePage (JObj [(asc ''parent'', JObj [(asc ''database_id'', JStr (asc ''0123456789abcdef''))]),
            (asc ''properties'',
             JObj (page_properties (demo_world f loads) (fill_from_pdf (normalise []) paper)
                     source link (JObj [(asc ''multi_select'', JArr [])])
                     (JObj [(asc ''multi_select'', JArr [])])))]),
         Log INFO])"
proof -
  note k = filled_keywords
  have m: "prop_multi_select pstr (JArr []) = Inr (JObj [(asc ''multi_select'', JArr [])])" for pstr
    by (simp add: prop_multi_select_def py_iter_def)
  have r: "read_created w (Inr (ok_reply (JObj [(asc ''url'', JStr (asc ''https://notion.so/new''))])))
      = (Inr (JStr (asc ''https://notion.so/new'')), [Log INFO])" for w
    by (simp add: read_created_def ok_reply_def py_get_def dict_get_def)
  have c: "w_create (demo_world f loads) payload
      = Inr (ok_reply (JObj [(asc ''url'', JStr (asc ''https://notion.so/new''))]))" for payload
    by (simp add: demo_world_def)
  have d: "w_database_id (demo_world f loads) = asc ''0123456789abcdef''"
    by (simp add: demo_world_def)
  show ?thesis
    by (simp add: create_paper_page_def get_or_list_def k m r c d)
qed

lemma demo_world_fields:
  "w_abspath (demo_world f loads) = (\<lambda>path. path)"
  "w_lower (demo_world f loads) = (\<lambda>s. s)"
  "w_abstract_search (demo_world f loads) = (\<lambda>text. None)"
  "w_json_loads (demo_world f loads) = loads"
  "w_catalog (demo_world f loads) = (\<lambda>query. Inr (results_reply []))"
  "w_generate (demo_world f loads) = (\<lambda>attempt prompt. Inr (asc ''{}''))"
  by (simp_all add: demo_world_def)

lemma demo_analyse_and_create:
  "fst (analyse_and_create (demo_world f (\<lambda>s. Inr (JObj []))) paper link source) = Inr True"
proof -
  have a: "analyze_paper (\<lambda>s. Inr (JObj [])) (\<lambda>attempt prompt. Inr (asc ''{}'')) body
      = (Inr (normalise []),
         truncate_events body @ [Log INFO, GenerateContent (prompt_head @ truncate body), Log INFO])"
    for body
    by (rule analyze_first_ok) (simp add: demo_try)
  have j: "keywords_joinable (get_or_list (fill_from_pdf (normalise []) paper) (asc ''keywords''))"
    by (simp add: get_or_list_def filled_keywords keywords_joinable_def)
  show ?thesis
    by (simp add: analyse_and_create_def demo_world_fields a j demo_created Let_def)
qed

lemma run_ok:
  "fst (process_single_paper (demo_world one_page_pdf (\<lambda>s. Inr (JObj []))) Map.empty
     (asc ''https://example.org/paper.pdf'') source True) = Inr True"
proof -
  let ?w = "demo_world one_page_pdf (\<lambda>s. Inr (JObj []))"
  have t: "paper_title sample_paper = Some (asc ''A Survey of Deep Learning'')"
    by (simp add: sample_paper_def)
  obtain ev where dup: "check_duplicate (\<lambda>s. s) (\<lambda>query. Inr (results_reply []))
      (asc ''A Survey of Deep Learning'') = (Inr JNull, ev)"
    using demo_no_duplicate by (metis prod.collapse)
  have ne: "nonempty (Some (asc ''A Survey of Deep Learning''))"
    by (simp add: nonempty_def asc_def)
  have p: "fst (process_pdf ?w [asc ''/tmp/tmpab12.pdf'' \<mapsto> one_page_pdf]
       (asc ''/tmp/tmpab12.pdf'') link source) = Inr True" for link
    using demo_analyse_and_create [of one_page_pdf sample_paper link source]
    by (simp add: process_pdf_def demo_world_fields extract_sample t ne dup split_def)
  have x: "except_block (Inr True) = (Inr True, [])" by (simp add: except_block_def)
  show ?thesis
    using p [of "asc ''https://example.org/paper.pdf''"]
    by (simp add: process_single_paper_def try_block_def demo_download x split_def)
qed

lemma catalog_queries_append:
  "catalog_queries (xs @ ys) = catalog_queries xs + catalog_queries ys"
  by (simp add: catalog_queries_def)

lemma analyze_attempts_no_catalog:
  "catalog_queries (snd (analyze_attempts loads generate prompt attempts last_error)) = 0"
proof (induction attempts arbitrary: last_error)
  case Nil
  then show ?case by (simp add: catalog_queries_def)
next
  case (Cons a attempts)
  show ?case
  proof (cases "analyze_try loads (generate a prompt)")
    case (Inr result)
    then show ?thesis by (simp add: catalog_queries_def)
  next
    case (Inl e)
    have rec: "catalog_queries (snd (analyze_attempts loads generate prompt attempts (Some e))) = 0"
      by (rule Cons.IH)
    show ?thesis
      using Inl rec
      by (cases e) (simp_all add: split_def catalog_queries_append, simp_all add: catalog_queries_def)
  qed
qed

lemma analyze_paper_no_catalog:
  "catalog_queries (snd (analyze_paper loads generate paper_text)) = 0"
proof -
  have "catalog_queries (truncate_events paper_text) = 0"
    by (simp add: truncate_events_def catalog_queries_def)
  then show ?thesis
    by (simp add: analyze_paper_def split_def catalog_queries_append analyze_attempts_no_catalog)
qed

lemma analyze_paper_calls:
  "1 \<le> calls_made (snd (analyze_paper loads generate paper_text))"
proof -
  let ?p = "prompt_head @ truncate paper_text"
  have loop: "1 \<le> calls_made (snd (analyze_attempts loads generate ?p [1, 2, 3] None))"
  proof (cases "analyze_try loads (generate 1 ?p)")
    case (Inr result)
    then show ?thesis
      by (simp add: calls_made_def)
  next
    case (Inl e)
    then show ?thesis
      by (cases e) (simp_all add: split_def calls_made_append, simp_all add: calls_made_def)
  qed
  have "snd (analyze_paper loads generate paper_text)
      = truncate_events paper_text @ snd (analyze_attempts loads generate ?p [1, 2, 3] None)"
    by (simp only: analyze_paper_def attempts_list split_def snd_conv)
  then show ?thesis
    using loop by (simp add: calls_made_append)
qed

lemma read_created_no_catalog: "catalog_queries (snd (read_created w answer)) = 0"
  by (auto simp: read_created_def catalog_queries_def split: sum.splits py_exn.splits)

lemma catalog_queries_Nil: "catalog_queries [] = 0"
  by (simp add: catalog_queries_def)

lemma catalog_queries_Cons:
  "catalog_queries (ev # evs)
     = (case ev of CatalogQuery _ \<Rightarrow> 1 | _ \<Rightarrow> 0) + catalog_queries evs"
  by (cases ev) (simp_all add: catalog_queries_def)

lemma create_paper_page_no_catalog:
  "catalog_queries (snd (create_paper_page w paper_data source pdf_url)) = 0"
  by (simp add: create_paper_page_def Let_def split_def catalog_queries_append
      catalog_queries_Cons catalog_queries_Nil read_created_no_catalog split: sum.splits)

lemma analyse_and_create_no_catalog:
  "catalog_queries (snd (analyse_and_create w paper pdf_link source)) = 0"
proof -
  obtain r ev where a: "analyze_paper (w_json_loads w) (w_generate w) (full_text paper) = (r, ev)"
    by (cases "analyze_paper (w_json_loads w) (w_generate w) (full_text paper)") auto
  have ev: "catalog_queries ev = 0"
    using analyze_paper_no_catalog [of "w_json_loads w" "w_generate w" "full_text paper"] a
    by simp
  show ?thesis
  proof (cases r)
    case (Inl e)
    then show ?thesis using a ev by (simp add: analyse_and_create_def)
  next
    case (Inr analysis0)
    obtain r2 ev2 where c: "create_paper_page w (fill_from_pdf analysis0 paper) source (Some pdf_link) = (r2, ev2)"
      by (cases "create_paper_page w (fill_from_pdf analysis0 paper) source (Some pdf_link)") auto
    have ev2: "catalog_queries ev2 = 0"
      using create_paper_page_no_catalog [of w "fill_from_pdf analysis0 paper" source "Some pdf_link"] c
      by simp
    show ?thesis
      using a Inr c ev ev2
      by (cases r2) (simp_all add: analyse_and_create_def Let_def catalog_queries_append)
  qed
qed

lemma analyse_and_create_calls:
  "1 \<le> calls_made (snd (analyse_and_create w paper pdf_link source))"
proof -
  obtain r ev where a: "analyze_paper (w_json_loads w) (w_generate w) (full_text paper) = (r, ev)"
    by (cases "analyze_paper (w_json_loads w) (w_generate w) (full_text paper)") auto
  have ev: "1 \<le> calls_made ev"
    using analyze_paper_calls [of "w_json_loads w" "w_generate w" "full_text paper"] a
    by simp
  show ?thesis
  proof (cases r)
    case (Inl e)
    then show ?thesis using a ev by (simp add: analyse_and_create_def)
  next
    case (Inr analysis0)
    obtain r2 ev2 where c: "create_paper_page w (fill_from_pdf analysis0 paper) source (Some pdf_link) = (r2, ev2)"
      by (cases "create_paper_page w (fill_from_pdf analysis0 paper) source (Some pdf_link)") auto
    show ?thesis
      using a Inr c ev
      by (cases r2) (simp_all add: analyse_and_create_def Let_def calls_made_append)
  qed
qed

lemma page_properties_catalog_free:
  "page_properties (w\<lparr>w_catalog := c\<rparr>) paper_data source pdf_url keywords main_topics
     = page_properties w paper_data source pdf_url keywords main_topics"
  by (simp add: page_properties_def)

lemma read_created_catalog_free: "read_created (w\<lparr>w_catalog := c\<rparr>) answer = read_created w answer"
  by (auto simp: read_created_def split: sum.splits py_exn.splits)

lemma create_paper_page_catalog_free:
  "create_paper_page (w\<lparr>w_catalog := c\<rparr>) paper_data source pdf_url
     = create_paper_page w paper_data source pdf_url"
  by (auto simp: create_paper_page_def page_properties_catalog_free read_created_catalog_free
      Let_def split: sum.splits)

lemma analyse_and_create_catalog_free:
  "analyse_and_create (w\<lparr>w_catalog := c\<rparr>) paper pdf_link source
     = analyse_and_create w paper pdf_link source"
  by (auto simp: analyse_and_create_def create_paper_page_catalog_free Let_def
      split: sum.splits prod.splits)

lemma extract_events_no_catalog:
  "catalog_queries (snd (extract_text_from_pdf abspath search fs path)) = 0"
  by (simp add: extract_text_from_pdf_def Let_def catalog_queries_def
      split: option.splits disk_file.splits)

lemma process_pdf_untitled:
  assumes "extract_text_from_pdf (w_abspath w) (w_abstract_search w) fs pdf_path = (Inr paper, events1)"
    and "\<not> nonempty (paper_title paper)"
  shows "process_pdf w fs pdf_path pdf_link source
           = (fst (analyse_and_create w paper pdf_link source),
              events1 @ snd (analyse_and_create w paper pdf_link source))"
  using assms by (simp add: process_pdf_def split_def)

text \<open>
  C10. \<open>check_duplicate\<close> with an empty title returns \<open>None\<close> and does nothing
  else. When the extractor finds no title (\<open>None\<close> or empty), the run goes from the
  extraction straight to the analysis: the catalog is never queried, the run does not
  depend on what the catalog holds, the reasoning service is called, and when the
  analysis succeeds the outcome of the run is the outcome of the catalog write.
\<close>

theorem untitled_paper_skips_duplicate_check:
  "check_duplicate ul catalog [] = (Inr JNull, []) \<and>
   (\<forall>paper events1.
      extract_text_from_pdf (w_abspath w) (w_abstract_search w) fs pdf_path = (Inr paper, events1) \<and>
      \<not> nonempty (paper_title paper) \<longrightarrow>
      process_pdf w fs pdf_path pdf_link source
        = (fst (analyse_and_create w paper pdf_link source),
           events1 @ snd (analyse_and_create w paper pdf_link source)) \<and>
      catalog_queries (snd (process_pdf w fs pdf_path pdf_link source)) = 0 \<and>
      1 \<le> calls_made (snd (process_pdf w fs pdf_path pdf_link source)) \<and>
      (\<forall>c. process_pdf (w\<lparr>w_catalog := c\<rparr>) fs pdf_path pdf_link source
             = process_pdf w fs pdf_path pdf_link source) \<and>
      (\<forall>analysis events2.
         analyze_paper (w_json_loads w) (w_generate w) (full_text paper) = (Inr analysis, events2) \<and>
         keywords_joinable (get_or_list (fill_from_pdf analysis paper) (asc ''keywords'')) \<longrightarrow>
         fst (process_pdf w fs pdf_path pdf_link source)
           = (case fst (create_paper_page w (fill_from_pdf analysis paper) source (Some pdf_link)) of
                Inl e \<Rightarrow> Inl e | Inr created_url \<Rightarrow> Inr True)))"
proof (intro conjI allI impI)
  show "check_duplicate ul catalog [] = (Inr JNull, [])"
    by (simp add: check_duplicate_def)
next
  fix paper events1
  assume h: "extract_text_from_pdf (w_abspath w) (w_abstract_search w) fs pdf_path = (Inr paper, events1) \<and>
      \<not> nonempty (paper_title paper)"
  then have p: "process_pdf w fs pdf_path pdf_link source
        = (fst (analyse_and_create w paper pdf_link source),
           events1 @ snd (analyse_and_create w paper pdf_link source))"
    by (simp add: process_pdf_untitled)
  show "process_pdf w fs pdf_path pdf_link source
        = (fst (analyse_and_create w paper pdf_link source),
           events1 @ snd (analyse_and_create w paper pdf_link source))"
    by (rule p)
  have e1: "catalog_queries events1 = 0"
    using extract_events_no_catalog [of "w_abspath w" "w_abstract_search w" fs pdf_path] h
    by simp
  show "catalog_queries (snd (process_pdf w fs pdf_path pdf_link source)) = 0"
    by (simp add: p catalog_queries_append e1 analyse_and_create_no_catalog)
  show "1 \<le> calls_made (snd (process_pdf w fs pdf_path pdf_link source))"
    using analyse_and_create_calls [of w paper pdf_link source]
    by (simp add: p calls_made_append)
  {
    fix c
    have "extract_text_from_pdf (w_abspath (w\<lparr>w_catalog := c\<rparr>))
            (w_abstract_search (w\<lparr>w_catalog := c\<rparr>)) fs pdf_path = (Inr paper, events1)"
      using h by simp
    then have "process_pdf (w\<lparr>w_catalog := c\<rparr>) fs pdf_path pdf_link source
        = (fst (analyse_and_create (w\<lparr>w_catalog := c\<rparr>) paper pdf_link source),
           events1 @ snd (analyse_and_create (w\<lparr>w_catalog := c\<rparr>) paper pdf_link source))"
      using h by (intro process_pdf_untitled) auto
    then show "process_pdf (w\<lparr>w_catalog := c\<rparr>) fs pdf_path pdf_link source
             = process_pdf w fs pdf_path pdf_link source"
      by (simp add: p analyse_and_create_catalog_free)
  }
  {
    fix analysis events2
    assume a: "analyze_paper (w_json_loads w) (w_generate w) (full_text paper) = (Inr analysis, events2) \<and>
         keywords_joinable (get_or_list (fill_from_pdf analysis paper) (asc ''keywords''))"
    show "fst (process_pdf w fs pdf_path pdf_link source)
           = (case fst (create_paper_page w (fill_from_pdf analysis paper) source (Some pdf_link)) of
                Inl e \<Rightarrow> Inl e | Inr created_url \<Rightarrow> Inr True)"
      using a
      by (cases "create_paper_page w (fill_from_pdf analysis paper) source (Some pdf_link)")
        (auto simp: p analyse_and_create_def Let_def split: sum.splits)
  }
qed

lemma short_raw: "raw_text \<lparr>is_encrypted = False, authenticate_empty = False,
                       page_texts = [short_lines], doc_metadata = []\<rparr> = short_lines"
  by (simp add: raw_text_def short_lines_def strip_def lstrip_def rstrip_def is_space_def asc_def)

lemma short_strip: "strip short_lines = short_lines"
  by (simp add: short_lines_def strip_def lstrip_def rstrip_def is_space_def asc_def)

lemma short_length: "length short_lines = 119"
  by (simp add: short_lines_def asc_def)

lemma short_clean: "clean_text short_lines = short_lines"
  by (simp add: clean_text_def fix_ligatures_def startswith_def short_lines_def strip_def
      lstrip_def rstrip_def is_space_def asc_def)

lemma short_title: "detect_title short_lines None = None"
  by (simp add: detect_title_def nonempty_def short_lines_def strip_def lstrip_def rstrip_def
      is_space_def asc_def)

lemma extract_untitled:
  "extract_text_from_pdf (\<lambda>path. path) (\<lambda>text. None)
     [asc ''/papers/notes.pdf'' \<mapsto> untitled_pdf] (asc ''/papers/notes.pdf'')
     = (Inr \<lparr>paper_title = None, paper_authors = None, paper_abstract = None,
             body_text = short_lines, num_pages = 1, source_path = asc ''/papers/notes.pdf'',
             paper_metadata = []\<rparr>, [Log INFO])"
  by (simp add: extract_text_from_pdf_def untitled_pdf_def short_raw short_strip short_length
      short_clean short_title meta_get_def detect_abstract_def Let_def)

lemma null_keywords:
  "dict_get (fill_from_pdf (normalise [(asc ''keywords'', JNull)]) paper) (asc ''keywords'') = Some JNull"
proof -
  have "dict_get [(asc ''keywords'', JNull)] (asc ''keywords'') = Some JNull"
    by (simp add: dict_get_def)
  then have "dict_get (normalise [(asc ''keywords'', JNull)]) (asc ''keywords'') = Some JNull"
    by (simp add: dict_get_normalise dict_get_set_defaults list_keys_def coerce_value_def)
  then show ?thesis by (simp add: dict_get_fill_from_pdf key_neq)
qed

lemma run_raise:
  "fst (process_single_paper
     (demo_world one_page_pdf (\<lambda>s. Inr (JObj [(asc ''keywords'', JNull)]))) Map.empty
     (asc ''https://example.org/paper.pdf'') source True)
   = Inl (OtherException (asc ''TypeError''))"
proof -
  let ?w = "demo_world one_page_pdf (\<lambda>s. Inr (JObj [(asc ''keywords'', JNull)]))"
  have a: "analyze_paper (\<lambda>s. Inr (JObj [(asc ''keywords'', JNull)]))
             (\<lambda>attempt prompt. Inr (asc ''{}'')) body
      = (Inr (normalise [(asc ''keywords'', JNull)]),
         truncate_events body @ [Log INFO, GenerateContent (prompt_head @ truncate body), Log INFO])"
    for body
    by (rule analyze_first_ok) (simp add: demo_try)
  have j: "\<not> keywords_joinable (get_or_list
      (fill_from_pdf (normalise [(asc ''keywords'', JNull)]) sample_paper) (asc ''keywords''))"
    by (simp add: get_or_list_def null_keywords keywords_joinable_def)
  have ac: "fst (analyse_and_create ?w sample_paper link source)
      = Inl (OtherException (asc ''TypeError''))" for link
    by (simp add: analyse_and_create_def demo_world_fields a j Let_def)
  have t: "paper_title sample_paper = Some (asc ''A Survey of Deep Learning'')"
    by (simp add: sample_paper_def)
  obtain ev where dup: "check_duplicate (\<lambda>s. s) (\<lambda>query. Inr (results_reply []))
      (asc ''A Survey of Deep Learning'') = (Inr JNull, ev)"
    using demo_no_duplicate by (metis prod.collapse)
  have ne: "nonempty (Some (asc ''A Survey of Deep Learning''))"
    by (simp add: nonempty_def asc_def)
  have p: "fst (process_pdf ?w [asc ''/tmp/tmpab12.pdf'' \<mapsto> one_page_pdf]
       (asc ''/tmp/tmpab12.pdf'') link source) = Inl (OtherException (asc ''TypeError''))" for link
    using ac [of link]
    by (simp add: process_pdf_def demo_world_fields extract_sample t ne dup split_def)
  have x: "except_block (Inl (OtherException m)) = (Inl (OtherException m), [])" for m
    by (simp add: except_block_def)
  show ?thesis
    using p [of "asc ''https://example.org/paper.pdf''"]
    by (simp add: process_single_paper_def try_block_def demo_download x split_def)
qed

theorem temp_file_cleanup_witness:
  "fst (snd (download_pdf (w_fetch (demo_world locked_pdf (\<lambda>s. Inr (JObj [])))) Map.empty
       (asc ''https://example.org/paper.pdf''))) (asc ''/tmp/tmpab12.pdf'') \<noteq> None \<and>
   fst (process_single_paper (demo_world locked_pdf (\<lambda>s. Inr (JObj []))) Map.empty
       (asc ''https://example.org/paper.pdf'') (asc ''Self-found'') True) = Inr False \<and>
   fst (snd (process_single_paper (demo_world locked_pdf (\<lambda>s. Inr (JObj []))) Map.empty
       (asc ''https://example.org/paper.pdf'') (asc ''Self-found'') True))
     (asc ''/tmp/tmpab12.pdf'') = None \<and>
   fst (process_single_paper (demo_world one_page_pdf (\<lambda>s. Inr (JObj []))) Map.empty
       (asc ''https://example.org/paper.pdf'') (asc ''Self-found'') True) = Inr True \<and>
   fst (snd (process_single_paper (demo_world one_page_pdf (\<lambda>s. Inr (JObj []))) Map.empty
       (asc ''https://example.org/paper.pdf'') (asc ''Self-found'') True))
     (asc ''/tmp/tmpab12.pdf'') = None \<and>
   fst (process_single_paper
       (demo_world one_page_pdf (\<lambda>s. Inr (JObj [(asc ''keywords'', JNull)]))) Map.empty
       (asc ''https://example.org/paper.pdf'') (asc ''Self-found'') True)
     = Inl (OtherException (asc ''TypeError'')) \<and>
   fst (snd (process_single_paper
       (demo_world one_page_pdf (\<lambda>s. Inr (JObj [(asc ''keywords'', JNull)]))) Map.empty
       (asc ''https://example.org/paper.pdf'') (asc ''Self-found'') True))
     (asc ''/tmp/tmpab12.pdf'') = None \<and>
   fst (snd (process_single_paper (demo_world locked_pdf (\<lambda>s. Inr (JObj [])))
       [asc ''/papers/notes.pdf'' \<mapsto> untitled_pdf]
       (asc ''/papers/notes.pdf'') (asc ''Self-found'') False))
     (asc ''/papers/notes.pdf'') = Some untitled_pdf"
proof -
  let ?u = "asc ''https://example.org/paper.pdf''"
  let ?n = "asc ''/tmp/tmpab12.pdf''"
  let ?s = "asc ''Self-found''"
  have d: "fst (snd (download_pdf (w_fetch (demo_world locked_pdf (\<lambda>s. Inr (JObj []))))
       Map.empty ?u)) ?n \<noteq> None"
    by (simp add: demo_download)
  have c1: "fst (snd (process_single_paper (demo_world locked_pdf (\<lambda>s. Inr (JObj []))) Map.empty
       ?u ?s True)) ?n = None"
    using temp_file_cleanup [where w = "demo_world locked_pdf (\<lambda>s. Inr (JObj []))"
        and fs = Map.empty and input_path = ?u and source = ?s, THEN conjunct1, rule_format,
        OF demo_download]
    by simp
  have c2: "fst (snd (process_single_paper (demo_world one_page_pdf (\<lambda>s. Inr (JObj []))) Map.empty
       ?u ?s True)) ?n = None"
    using temp_file_cleanup [where w = "demo_world one_page_pdf (\<lambda>s. Inr (JObj []))"
        and fs = Map.empty and input_path = ?u and source = ?s, THEN conjunct1, rule_format,
        OF demo_download]
    by simp
  have c3: "fst (snd (process_single_paper
       (demo_world one_page_pdf (\<lambda>s. Inr (JObj [(asc ''keywords'', JNull)]))) Map.empty
       ?u ?s True)) ?n = None"
    using temp_file_cleanup [where w = "demo_world one_page_pdf (\<lambda>s. Inr (JObj [(asc ''keywords'', JNull)]))"
        and fs = Map.empty and input_path = ?u and source = ?s, THEN conjunct1, rule_format,
        OF demo_download]
    by simp
  have c4: "fst (snd (process_single_paper (demo_world locked_pdf (\<lambda>s. Inr (JObj [])))
       [asc ''/papers/notes.pdf'' \<mapsto> untitled_pdf] (asc ''/papers/notes.pdf'') ?s False))
     (asc ''/papers/notes.pdf'') = Some untitled_pdf"
    using temp_file_cleanup [where w = "demo_world locked_pdf (\<lambda>s. Inr (JObj []))"
        and fs = "[asc ''/papers/notes.pdf'' \<mapsto> untitled_pdf]"
        and input_path = "asc ''/papers/notes.pdf''" and source = ?s, THEN conjunct2]
    by simp
  show ?thesis
    using d c1 c2 c3 c4 run_locked [of "\<lambda>s. Inr (JObj [])" ?s] run_ok [of ?s] run_raise [of ?s]
    by blast
qed

theorem untitled_paper_skips_duplicate_check_witness:
  "check_duplicate (\<lambda>s. s)
     (\<lambda>query. Inr (results_reply [catalog_page [] (asc ''https://notion.so/untitled'')])) []
     = (Inr JNull, []) \<and>
   catalog_queries (snd (process_pdf
     ((demo_world untitled_pdf (\<lambda>s. Inr (JObj [])))
        \<lparr>w_catalog := \<lambda>query. Inr (results_reply [catalog_page [] (asc ''https://notion.so/untitled'')])\<rparr>)
     [asc ''/papers/notes.pdf'' \<mapsto> untitled_pdf] (asc ''/papers/notes.pdf'')
     (asc ''/papers/notes.pdf'') (asc ''Self-found''))) = 0 \<and>
   1 \<le> calls_made (snd (process_pdf
     ((demo_world untitled_pdf (\<lambda>s. Inr (JObj [])))
        \<lparr>w_catalog := \<lambda>query. Inr (results_reply [catalog_page [] (asc ''https://notion.so/untitled'')])\<rparr>)
     [asc ''/papers/notes.pdf'' \<mapsto> untitled_pdf] (asc ''/papers/notes.pdf'')
     (asc ''/papers/notes.pdf'') (asc ''Self-found''))) \<and>
   fst (process_pdf
     ((demo_world untitled_pdf (\<lambda>s. Inr (JObj [])))
        \<lparr>w_catalog := \<lambda>query. Inr (results_reply [catalog_page [] (asc ''https://notion.so/untitled'')])\<rparr>)
     [asc ''/papers/notes.pdf'' \<mapsto> untitled_pdf] (asc ''/papers/notes.pdf'')
     (asc ''/papers/notes.pdf'') (asc ''Self-found'')) = Inr True"
proof -
  let ?c = "\<lambda>query :: pystr. (Inr (results_reply [catalog_page [] (asc ''https://notion.so/untitled'')])
              :: py_exn + http_response)"
  let ?w = "(demo_world untitled_pdf (\<lambda>s. Inr (JObj [])))\<lparr>w_catalog := ?c\<rparr>"
  let ?fs = "[asc ''/papers/notes.pdf'' \<mapsto> untitled_pdf]"
  let ?p = "asc ''/papers/notes.pdf''"
  let ?paper = "\<lparr>paper_title = None, paper_authors = None, paper_abstract = None,
             body_text = short_lines, num_pages = 1, source_path = asc ''/papers/notes.pdf'',
             paper_metadata = []\<rparr>"
  have ex: "extract_text_from_pdf (w_abspath ?w) (w_abstract_search ?w) ?fs ?p = (Inr ?paper, [Log INFO])
      \<and> \<not> nonempty (paper_title ?paper)"
    by (simp add: demo_world_fields extract_untitled nonempty_def)
  note T = untitled_paper_skips_duplicate_check [where w = ?w and fs = ?fs and pdf_path = ?p
      and pdf_link = ?p and source = "asc ''Self-found''" and ul = "\<lambda>s. s" and catalog = ?c]
  note U = T [THEN conjunct2, rule_format, OF ex]
  have a: "analyze_paper (w_json_loads ?w) (w_generate ?w) (full_text ?paper)
      = (Inr (normalise []),
         truncate_events (full_text ?paper)
         @ [Log INFO, GenerateContent (prompt_head @ truncate (full_text ?paper)), Log INFO])"
    by (simp add: demo_world_fields) (rule analyze_first_ok, simp add: demo_try)
  have j: "keywords_joinable (get_or_list (fill_from_pdf (normalise []) ?paper) (asc ''keywords''))"
    by (simp add: get_or_list_def filled_keywords keywords_joinable_def)
  have cr: "fst (create_paper_page ?w (fill_from_pdf (normalise []) paper) (asc ''Self-found'')
      (Some ?p)) = Inr (JStr (asc ''https://notion.so/new''))" for paper
    by (simp add: create_paper_page_catalog_free demo_created)
  have r: "fst (process_pdf ?w ?fs ?p ?p (asc ''Self-found'')) = Inr True"
    using U [THEN conjunct2, THEN conjunct2, THEN conjunct2, THEN conjunct2, rule_format,
        of "normalise []"] a j
    by (simp add: cr)
  show ?thesis
    using T [THEN conjunct1] U [THEN conjunct2, THEN conjunct1]
      U [THEN conjunct2, THEN conjunct2, THEN conjunct1] r
    by blast
qed

text \<open>
  C5. \<open>check_duplicate\<close> never raises, whatever the title and whatever the catalog
  does. When anything in the query raises (the request itself, an error status, a body
  that is not JSON, a page of an unexpected shape) it returns \<open>None\<close>, and the only
  thing logged after the request is one warning. In the pipeline such a failure is no
  failure: the run goes on with the analysis as if there were no duplicate.
\<close>

theorem check_duplicate_never_raises:
  "(\<exists>v. fst (check_duplicate ul catalog title) = Inr v) \<and>
   (\<forall>e. title \<noteq> [] \<and>
        read_reply ul (normalize_title ul title) (catalog (slice_to 100 title)) = Inl e \<longrightarrow>
        check_duplicate ul catalog title =
          (Inr JNull, [Log INFO, CatalogQuery (slice_to 100 title), Log WARNING])) \<and>
   (\<forall>e. title \<noteq> [] \<and> catalog (slice_to 100 title) = Inl e \<longrightarrow>
        check_duplicate ul catalog title =
          (Inr JNull, [Log INFO, CatalogQuery (slice_to 100 title), Log WARNING])) \<and>
   (\<forall>resp. title \<noteq> [] \<and> catalog (slice_to 100 title) = Inr resp \<and>
        400 \<le> status_code resp \<and> status_code resp < 600 \<longrightarrow>
        check_duplicate ul catalog title =
          (Inr JNull, [Log INFO, CatalogQuery (slice_to 100 title), Log WARNING])) \<and>
   (\<forall>resp e. title \<noteq> [] \<and> catalog (slice_to 100 title) = Inr resp \<and>
        json_body resp = Inl e \<longrightarrow>
        check_duplicate ul catalog title =
          (Inr JNull, [Log INFO, CatalogQuery (slice_to 100 title), Log WARNING])) \<and>
   (\<forall>w fs pdf_path pdf_link source paper events1 e.
        extract_text_from_pdf (w_abspath w) (w_abstract_search w) fs pdf_path = (Inr paper, events1) \<and>
        nonempty (paper_title paper) \<and>
        read_reply (w_lower w) (normalize_title (w_lower w) (the (paper_title paper)))
          (w_catalog w (slice_to 100 (the (paper_title paper)))) = Inl e \<longrightarrow>
        fst (process_pdf w fs pdf_path pdf_link source)
          = fst (analyse_and_create w paper pdf_link source))"
proof (intro conjI allI impI)
  show "\<exists>v. fst (check_duplicate ul catalog title) = Inr v"
    by (simp add: check_duplicate_def Let_def split: sum.splits option.splits)
next
  fix e
  assume "title \<noteq> [] \<and>
        read_reply ul (normalize_title ul title) (catalog (slice_to 100 title)) = Inl e"
  then show "check_duplicate ul catalog title =
          (Inr JNull, [Log INFO, CatalogQuery (slice_to 100 title), Log WARNING])"
    by (simp add: check_duplicate_def Let_def)
next
  fix e
  assume "title \<noteq> [] \<and> catalog (slice_to 100 title) = Inl e"
  then show "check_duplicate ul catalog title =
          (Inr JNull, [Log INFO, CatalogQuery (slice_to 100 title), Log WARNING])"
    by (simp add: check_duplicate_def Let_def read_reply_def)
next
  fix resp
  assume "title \<noteq> [] \<and> catalog (slice_to 100 title) = Inr resp \<and>
        400 \<le> status_code resp \<and> status_code resp < 600"
  then show "check_duplicate ul catalog title =
          (Inr JNull, [Log INFO, CatalogQuery (slice_to 100 title), Log WARNING])"
    by (simp add: check_duplicate_def Let_def read_reply_def raise_for_status_def)
next
  fix resp e
  assume "title \<noteq> [] \<and> catalog (slice_to 100 title) = Inr resp \<and> json_body resp = Inl e"
  then show "check_duplicate ul catalog title =
          (Inr JNull, [Log INFO, CatalogQuery (slice_to 100 title), Log WARNING])"
    by (simp add: check_duplicate_def Let_def read_reply_def split: sum.splits)
next
  fix w :: world and fs pdf_path pdf_link source paper events1 e
  assume h: "extract_text_from_pdf (w_abspath w) (w_abstract_search w) fs pdf_path = (Inr paper, events1) \<and>
        nonempty (paper_title paper) \<and>
        read_reply (w_lower w) (normalize_title (w_lower w) (the (paper_title paper)))
          (w_catalog w (slice_to 100 (the (paper_title paper)))) = Inl e"
  then have ne: "the (paper_title paper) \<noteq> []"
    by (auto simp: nonempty_def split: option.splits)
  have "check_duplicate (w_lower w) (w_catalog w) (the (paper_title paper))
      = (Inr JNull, [Log INFO, CatalogQuery (slice_to 100 (the (paper_title paper))), Log WARNING])"
    using h ne by (simp add: check_duplicate_def Let_def)
  then show "fst (process_pdf w fs pdf_path pdf_link source)
          = fst (analyse_and_create w paper pdf_link source)"
    using h by (simp add: process_pdf_def split_def)
qed

theorem check_duplicate_never_raises_witness:
  "check_duplicate (\<lambda>s. s) (\<lambda>q. Inl (RequestException (asc ''Connection refused'')))
     (asc ''Deep Learning'')
     = (Inr JNull, [Log INFO, CatalogQuery (asc ''Deep Learning''), Log WARNING]) \<and>
   check_duplicate (\<lambda>s. s)
     (\<lambda>q. Inr ((ok_reply JNull)\<lparr>status_code := 503, reason := asc ''Service Unavailable''\<rparr>))
     (asc ''Deep Learning'')
     = (Inr JNull, [Log INFO, CatalogQuery (asc ''Deep Learning''), Log WARNING]) \<and>
   check_duplicate (\<lambda>s. s)
     (\<lambda>q. Inr ((ok_reply JNull)\<lparr>json_body := Inl (RequestException (asc ''Expecting value''))\<rparr>))
     (asc ''Deep Learning'')
     = (Inr JNull, [Log INFO, CatalogQuery (asc ''Deep Learning''), Log WARNING]) \<and>
   check_duplicate (\<lambda>s. s)
     (\<lambda>q. Inr (results_reply [JObj [(asc ''properties'', JObj [(asc ''Title'', JObj
          [(asc ''title'', JArr [JObj [(asc ''mention'', JObj [])]])])])]]))
     (asc ''Deep Learning'')
     = (Inr JNull, [Log INFO, CatalogQuery (asc ''Deep Learning''), Log WARNING]) \<and>
   fst (process_pdf
     ((demo_world one_page_pdf (\<lambda>s. Inr (JObj [])))
        \<lparr>w_catalog := \<lambda>query. Inl (RequestException (asc ''Connection refused''))\<rparr>)
     [asc ''/tmp/tmpab12.pdf'' \<mapsto> one_page_pdf] (asc ''/tmp/tmpab12.pdf'')
     (asc ''https://example.org/paper.pdf'') (asc ''Self-found'')) = Inr True"
proof -
  let ?t = "asc ''Deep Learning''"
  have ne: "?t \<noteq> []" by (simp add: asc_def)
  have q: "slice_to 100 ?t = ?t" by (simp add: slice_to_def asc_def)
  note N = check_duplicate_never_raises [where ul = "\<lambda>s. s" and title = ?t]
  have a: "check_duplicate (\<lambda>s. s) (\<lambda>q. Inl (RequestException (asc ''Connection refused''))) ?t
     = (Inr JNull, [Log INFO, CatalogQuery ?t, Log WARNING])"
    using N [where catalog = "\<lambda>q. Inl (RequestException (asc ''Connection refused''))"] ne q
    by simp
  have b: "check_duplicate (\<lambda>s. s)
     (\<lambda>q. Inr ((ok_reply JNull)\<lparr>status_code := 503, reason := asc ''Service Unavailable''\<rparr>)) ?t
     = (Inr JNull, [Log INFO, CatalogQuery ?t, Log WARNING])"
    using N [where catalog = "\<lambda>q. Inr ((ok_reply JNull)\<lparr>status_code := 503, reason := asc ''Service Unavailable''\<rparr>)"] ne q
    by (simp add: ok_reply_def)
  have c: "check_duplicate (\<lambda>s. s)
     (\<lambda>q. Inr ((ok_reply JNull)\<lparr>json_body := Inl (RequestException (asc ''Expecting value''))\<rparr>)) ?t
     = (Inr JNull, [Log INFO, CatalogQuery ?t, Log WARNING])"
    using N [where catalog = "\<lambda>q. Inr ((ok_reply JNull)\<lparr>json_body := Inl (RequestException (asc ''Expecting value''))\<rparr>)"] ne q
    by (simp add: ok_reply_def)
  let ?pg = "JObj [(asc ''properties'', JObj [(asc ''Title'', JObj
          [(asc ''title'', JArr [JObj [(asc ''mention'', JObj [])]])])])]"
  have pt: "page_title ?pg = Inl (OtherException (asc ''KeyError''))"
    by (simp add: page_title_def title_blocks_def py_get_def dict_get_def
        first_block_content_def py_first_def py_item_def asc_def)
  have rr: "read_reply (\<lambda>s. s) (normalize_title (\<lambda>s. s) ?t) (Inr (results_reply [?pg]))
      = Inl (OtherException (asc ''KeyError''))"
    by (simp add: read_reply_def raise_for_status_def results_reply_def ok_reply_def py_get_def
        dict_get_def py_iter_def pt)
  have d: "check_duplicate (\<lambda>s. s) (\<lambda>q. Inr (results_reply [?pg])) ?t
     = (Inr JNull, [Log INFO, CatalogQuery ?t, Log WARNING])"
    using N [where catalog = "\<lambda>q. Inr (results_reply [?pg])"] ne q rr
    by simp
  let ?w = "(demo_world one_page_pdf (\<lambda>s. Inr (JObj [])))
        \<lparr>w_catalog := \<lambda>query. Inl (RequestException (asc ''Connection refused''))\<rparr>"
  have ex: "extract_text_from_pdf (w_abspath ?w) (w_abstract_search ?w)
      [asc ''/tmp/tmpab12.pdf'' \<mapsto> one_page_pdf] (asc ''/tmp/tmpab12.pdf'')
      = (Inr sample_paper, [Log INFO])"
    by (simp add: demo_world_fields extract_sample)
  have ti: "nonempty (paper_title sample_paper)"
    by (simp add: sample_paper_def nonempty_def asc_def)
  have rr2: "read_reply (w_lower ?w) (normalize_title (w_lower ?w) (the (paper_title sample_paper)))
      (w_catalog ?w (slice_to 100 (the (paper_title sample_paper))))
      = Inl (RequestException (asc ''Connection refused''))"
    by (simp add: read_reply_def)
  have "fst (process_pdf ?w [asc ''/tmp/tmpab12.pdf'' \<mapsto> one_page_pdf] (asc ''/tmp/tmpab12.pdf'')
      (asc ''https://example.org/paper.pdf'') (asc ''Self-found''))
    = fst (analyse_and_create ?w sample_paper (asc ''https://example.org/paper.pdf'')
        (asc ''Self-found''))"
    using N [THEN conjunct2, THEN conjunct2, THEN conjunct2, THEN conjunct2, THEN conjunct2,
        rule_format, of ?w "[asc ''/tmp/tmpab12.pdf'' \<mapsto> one_page_pdf]"
        "asc ''/tmp/tmpab12.pdf''" sample_paper "[Log INFO]"
        "RequestException (asc ''Connection refused'')"
        "asc ''https://example.org/paper.pdf''" "asc ''Self-found''"]
      ex ti rr2
    by blast
  then have e: "fst (process_pdf ?w [asc ''/tmp/tmpab12.pdf'' \<mapsto> one_page_pdf]
      (asc ''/tmp/tmpab12.pdf'') (asc ''https://example.org/paper.pdf'') (asc ''Self-found''))
    = Inr True"
    by (simp add: analyse_and_create_catalog_free demo_analyse_and_create)
  show ?thesis using a b c d e by simp
qed

end
